theory Spec2Isabelle
  imports Complex_Main
begin

section \<open>JavaScript numbers\<close>

text \<open>
  The amount of an invoice is a JavaScript number, an IEEE 754 binary64 value. A finite
  value is modelled by the rational number it denotes, so \<open>Fin q\<close> is only ever built from
  a rational that binary64 can hold. The two signed zeros are the one value \<open>Fin 0\<close>: the
  actions only compare the amount with 0 and multiply it by 100, and the sign of a zero
  changes neither the comparison nor whether the product is zero.
\<close>

datatype number = NaN | PosInf | NegInf | Fin rat

text \<open>\<open>ilog2 n\<close> is the position of the leading bit of \<open>n\<close>.\<close>

fun ilog2 :: "nat \<Rightarrow> nat" where
  "ilog2 n = (if n < 2 then 0 else Suc (ilog2 (n div 2)))"

declare ilog2.simps [simp del]

text \<open>Rounding to the nearest integer, a tie going to the even neighbour.\<close>

definition rhe :: "rat \<Rightarrow> int" where
  "rhe x = (let f = \<lfloor>x\<rfloor>; r = x - of_int f
            in if r < 1 / 2 then f else if 1 / 2 < r then f + 1
               else if even f then f else f + 1)"

text \<open>
  The binary64 format: 52 fraction bits, the smallest positive value \<open>2 ^ -1074\<close>, and
  every magnitude that rounds to \<open>2 ^ 1024\<close> or more overflows to an infinity.
\<close>

definition denorm_exp :: nat where "denorm_exp = 1074"
definition frac_bits :: nat where "frac_bits = 52"
definition overflow_exp :: nat where "overflow_exp = 1024"

text \<open>
  The binary64 value of a rational (round to nearest, ties to even), ECMAScript's
  "Number value for x". The magnitude is scaled by \<open>2 ^ 1074\<close>, which makes the smallest
  positive value 1; \<open>sh\<close> counts the low bits that do not fit in the 53-bit significand
  (none in the subnormal range, where the subtraction on \<open>nat\<close> stops at 0).
\<close>

definition round64 :: "rat \<Rightarrow> number" where
  "round64 q =
     (let a = \<bar>q\<bar> * 2 ^ denorm_exp;
          sh = ilog2 (nat \<lfloor>a\<rfloor>) - frac_bits;
          m = rhe (a / 2 ^ sh);
          v = of_int m * 2 ^ sh / 2 ^ denorm_exp
      in if 2 ^ overflow_exp \<le> v then (if 0 < q then PosInf else NegInf)
         else Fin (if 0 < q then v else - v))"

text \<open>The relation \<open>x <= y\<close> of JavaScript: false as soon as one side is NaN.\<close>

fun num_le :: "number \<Rightarrow> number \<Rightarrow> bool" where
  "num_le NaN y = False"
| "num_le x NaN = False"
| "num_le NegInf y = True"
| "num_le x PosInf = True"
| "num_le PosInf y = False"
| "num_le (Fin a) NegInf = False"
| "num_le (Fin a) (Fin b) = (a \<le> b)"

fun num_sign :: "number \<Rightarrow> int" where
  "num_sign NaN = 0"
| "num_sign PosInf = 1"
| "num_sign NegInf = - 1"
| "num_sign (Fin a) = (if a < 0 then - 1 else if a = 0 then 0 else 1)"

text \<open>
  The operator \<open>*\<close>: the exact product of two finite values rounded once; with an
  infinite operand the result is NaN when the other operand is zero, and otherwise the
  infinity whose sign is the product of the signs.
\<close>

fun num_times :: "number \<Rightarrow> number \<Rightarrow> number" where
  "num_times (Fin a) (Fin b) = round64 (a * b)"
| "num_times x y =
     (if x = NaN \<or> y = NaN \<or> num_sign x * num_sign y = 0 then NaN
      else if 0 < num_sign x * num_sign y then PosInf else NegInf)"

fun num_negate :: "number \<Rightarrow> number" where
  "num_negate NaN = NaN"
| "num_negate PosInf = NegInf"
| "num_negate NegInf = PosInf"
| "num_negate (Fin a) = Fin (- a)"

subsection \<open>\<open>Number(string)\<close>\<close>

text \<open>
  ECMAScript's StringToNumber, which \<open>z.coerce.number()\<close> applies to a form field.
  A \<open>char\<close> stands for a code unit below 256; the white space of ECMAScript in that range
  is TAB, LF, VT, FF, CR, SP and NBSP.
\<close>

definition is_white_space :: "char \<Rightarrow> bool" where
  "is_white_space c \<longleftrightarrow> (of_char c :: nat) \<in> {9, 10, 11, 12, 13, 32, 160}"

definition trim :: "string \<Rightarrow> string" where
  "trim s = rev (dropWhile is_white_space (rev (dropWhile is_white_space s)))"

definition digit_value :: "char \<Rightarrow> nat option" where
  "digit_value c =
     (let n = (of_char c :: nat)
      in if 48 \<le> n \<and> n \<le> 57 then Some (n - 48)
         else if 97 \<le> n \<and> n \<le> 102 then Some (n - 87)
         else if 65 \<le> n \<and> n \<le> 70 then Some (n - 55)
         else None)"

definition is_digit :: "nat \<Rightarrow> char \<Rightarrow> bool" where
  "is_digit radix c = (case digit_value c of Some v \<Rightarrow> v < radix | None \<Rightarrow> False)"

definition digits_value :: "nat \<Rightarrow> string \<Rightarrow> nat" where
  "digits_value radix cs =
     foldl (\<lambda>acc c. acc * radix + (case digit_value c of Some v \<Rightarrow> v | None \<Rightarrow> 0)) 0 cs"

definition pow10 :: "int \<Rightarrow> rat" where
  "pow10 e = (if 0 \<le> e then 10 ^ nat e else 1 / 10 ^ nat (- e))"

text \<open>A run of decimal digits that is the whole of the string, as an integer.\<close>

definition decimal_digits :: "string \<Rightarrow> int option" where
  "decimal_digits ds =
     (if ds \<noteq> [] \<and> list_all (is_digit 10) ds then Some (int (digits_value 10 ds)) else None)"

text \<open>ExponentPart, or nothing: the rest of the literal after the digits.\<close>

definition exponent_part :: "string \<Rightarrow> int option" where
  "exponent_part r =
     (case r of
        [] \<Rightarrow> Some 0
      | c # t \<Rightarrow>
          if c = CHR ''e'' \<or> c = CHR ''E'' then
            (case t of
               [] \<Rightarrow> None
             | s # ds \<Rightarrow>
                 if s = CHR ''+'' then decimal_digits ds
                 else if s = CHR ''-'' then map_option uminus (decimal_digits ds)
                 else decimal_digits t)
          else None)"

text \<open>
  StrUnsignedDecimalLiteral without \<open>Infinity\<close>: digits, an optional point and
  digits, an optional exponent; at least one digit before or after the point.
\<close>

definition str_unsigned_decimal :: "string \<Rightarrow> rat option" where
  "str_unsigned_decimal s =
     (let ip = takeWhile (is_digit 10) s;
          r1 = dropWhile (is_digit 10) s;
          fp = (case r1 of [] \<Rightarrow> [] | c # t \<Rightarrow>
                  if c = CHR ''.'' then takeWhile (is_digit 10) t else []);
          r2 = (case r1 of [] \<Rightarrow> [] | c # t \<Rightarrow>
                  if c = CHR ''.'' then dropWhile (is_digit 10) t else r1)
      in if ip = [] \<and> fp = [] then None
         else (case exponent_part r2 of
                 None \<Rightarrow> None
               | Some ex \<Rightarrow>
                   Some (of_nat (digits_value 10 (ip @ fp)) * pow10 (ex - int (length fp)))))"

definition str_unsigned :: "string \<Rightarrow> number option" where
  "str_unsigned s =
     (if s = ''Infinity'' then Some PosInf else map_option round64 (str_unsigned_decimal s))"

text \<open>StrDecimalLiteral: an optional sign before the unsigned literal.\<close>

definition str_decimal_literal :: "string \<Rightarrow> number option" where
  "str_decimal_literal s =
     (case s of
        [] \<Rightarrow> None
      | c # t \<Rightarrow>
          if c = CHR ''+'' then str_unsigned t
          else if c = CHR ''-'' then map_option num_negate (str_unsigned t)
          else str_unsigned s)"

definition radix_of_prefix :: "char \<Rightarrow> nat option" where
  "radix_of_prefix c =
     (if c = CHR ''x'' \<or> c = CHR ''X'' then Some 16
      else if c = CHR ''o'' \<or> c = CHR ''O'' then Some 8
      else if c = CHR ''b'' \<or> c = CHR ''B'' then Some 2
      else None)"

text \<open>NonDecimalIntegerLiteral: \<open>0x\<close>, \<open>0o\<close> or \<open>0b\<close> and at least one digit, no sign.\<close>

definition non_decimal_literal :: "string \<Rightarrow> number option" where
  "non_decimal_literal s =
     (case s of
        z # p # ds \<Rightarrow>
          if z = CHR ''0'' then
            (case radix_of_prefix p of
               None \<Rightarrow> None
             | Some r \<Rightarrow>
                 if ds \<noteq> [] \<and> list_all (is_digit r) ds
                 then Some (round64 (of_nat (digits_value r ds))) else None)
          else None
      | _ \<Rightarrow> None)"

definition string_to_number :: "string \<Rightarrow> number" where
  "string_to_number s =
     (let t = trim s
      in if t = [] then Fin 0
         else (case non_decimal_literal t of
                 Some n \<Rightarrow> n
               | None \<Rightarrow> (case str_decimal_literal t of Some n \<Rightarrow> n | None \<Rightarrow> NaN)))"

section \<open>Form data\<close>

text \<open>
  \<open>formData.get(name)\<close> returns the first value stored under the name, a string or a
  File, and \<open>null\<close> (here \<open>None\<close>) when there is none.
\<close>

datatype formValue = StrValue string | FileValue

type_synonym FormData = "(string \<times> formValue) list"

definition formData_get :: "FormData \<Rightarrow> string \<Rightarrow> formValue option" where
  "formData_get formData name = map_of formData name"

text \<open>
  \<open>Number(value)\<close> on what \<open>formData.get\<close> returns: \<open>null\<close> is 0, a File is an object
  whose primitive value is the string \<open>[object File]\<close>, which is no numeric literal.
\<close>

definition Number :: "formValue option \<Rightarrow> number" where
  "Number v =
     (case v of
        None \<Rightarrow> Fin 0
      | Some FileValue \<Rightarrow> NaN
      | Some (StrValue s) \<Rightarrow> string_to_number s)"

section \<open>The Zod schemas\<close>

datatype issueCode = invalid_type | too_small | invalid_enum_value

datatype issue = Issue (issue_path: string) (issue_code: issueCode) (issue_message: string)

datatype invoiceStatus = Pending | Paid

record validatedData =
  customerId :: string
  amount :: number
  status :: invoiceStatus

text \<open>The name Zod gives to the type of a rejected value in its default messages.\<close>

definition received_type :: "formValue option \<Rightarrow> string" where
  "received_type v =
     (case v of None \<Rightarrow> ''null'' | Some FileValue \<Rightarrow> ''object'' | Some (StrValue s) \<Rightarrow> ''string'')"

definition quoted :: "string \<Rightarrow> string" where
  "quoted s = [CHR 0x27] @ s @ [CHR 0x27]"

fun joinValues :: "string list \<Rightarrow> string" where
  "joinValues [] = []"
| "joinValues [x] = quoted x"
| "joinValues (x # xs) = quoted x @ '' | '' @ joinValues xs"

text \<open>
  \<open>z.string({ invalid_type_error })\<close>: any string passes, the empty one too; every other
  value is an \<open>invalid_type\<close> issue, whose message is \<open>invalid_type_error\<close> when the schema
  gives one (the value is never \<open>undefined\<close> here, so \<open>required_error\<close> plays no part).
\<close>

definition z_string :: "string option \<Rightarrow> string \<Rightarrow> formValue option \<Rightarrow> issue list + string" where
  "z_string invalid_type_error p v =
     (case v of
        Some (StrValue s) \<Rightarrow> Inr s
      | _ \<Rightarrow>
          Inl [Issue p invalid_type
                 (case invalid_type_error of
                    Some m \<Rightarrow> m
                  | None \<Rightarrow> ''Expected string, received '' @ received_type v)])"

text \<open>
  \<open>z.coerce.number()\<close>: the value is replaced by \<open>Number(value)\<close>; NaN is not of type
  number for Zod and ends the field's parse with an \<open>invalid_type\<close> issue.
\<close>

definition z_coerce_number :: "string \<Rightarrow> formValue option \<Rightarrow> issue list + number" where
  "z_coerce_number p v =
     (let n = Number v
      in if n = NaN then Inl [Issue p invalid_type ''Expected number, received nan'']
         else Inr n)"

text \<open>
  \<open>.gt(bound, { message })\<close>: the check of a number that passed the type test; it fails
  when \<open>value <= bound\<close>.
\<close>

definition z_gt ::
  "number \<Rightarrow> string \<Rightarrow> string \<Rightarrow> issue list + number \<Rightarrow> issue list + number" where
  "z_gt bound msg p r =
     (case r of
        Inl issues \<Rightarrow> Inl issues
      | Inr n \<Rightarrow> if num_le n bound then Inl [Issue p too_small msg] else Inr n)"

text \<open>
  \<open>z.enum(values, { invalid_type_error })\<close>: a value that is not a string is an
  \<open>invalid_type\<close> issue and takes \<open>invalid_type_error\<close>; a string that is not one of the
  values is an \<open>invalid_enum_value\<close> issue, which \<open>invalid_type_error\<close> does not cover, so
  it carries Zod's default message.
\<close>

definition z_enum ::
  "(string \<times> 'a) list \<Rightarrow> string option \<Rightarrow> string \<Rightarrow> formValue option \<Rightarrow> issue list + 'a" where
  "z_enum values invalid_type_error p v =
     (case v of
        Some (StrValue s) \<Rightarrow>
          (case map_of values s of
             Some x \<Rightarrow> Inr x
           | None \<Rightarrow>
               Inl [Issue p invalid_enum_value
                      (''Invalid enum value. Expected '' @ joinValues (map fst values)
                         @ '', received '' @ quoted s)])
      | _ \<Rightarrow>
          Inl [Issue p invalid_type
                 (case invalid_type_error of
                    Some m \<Rightarrow> m
                  | None \<Rightarrow>
                      ''Expected '' @ joinValues (map fst values) @ '', received ''
                        @ received_type v)])"

definition issues_of :: "issue list + 'a \<Rightarrow> issue list" where
  "issues_of r = (case r of Inl issues \<Rightarrow> issues | Inr x \<Rightarrow> [])"

text \<open>
  \<open>z.object\<close> parses every key, in the order of the shape, and collects the issues of
  all of them; the data is there only when no key has an issue.
\<close>

definition z_object ::
  "issue list + string \<Rightarrow> issue list + number \<Rightarrow> issue list + invoiceStatus
     \<Rightarrow> issue list + validatedData" where
  "z_object c a s =
     (case c of
        Inl ic \<Rightarrow> Inl (ic @ issues_of a @ issues_of s)
      | Inr cv \<Rightarrow>
          (case a of
             Inl ia \<Rightarrow> Inl (ia @ issues_of s)
           | Inr av \<Rightarrow>
               (case s of
                  Inl is \<Rightarrow> Inl is
                | Inr sv \<Rightarrow> Inr \<lparr>customerId = cv, amount = av, status = sv\<rparr>)))"

definition status_values :: "(string \<times> invoiceStatus) list" where
  "status_values = [(''pending'', Pending), (''paid'', Paid)]"

text \<open>
  \<open>FormSchema\<close> of the file with the reporting actions, without \<open>id\<close> and \<open>date\<close>;
  \<open>CreateInvoice\<close> and \<open>UpdateInvoice\<close> are this same schema.
\<close>

definition FormSchema_safeParse ::
  "formValue option \<Rightarrow> formValue option \<Rightarrow> formValue option \<Rightarrow> issue list + validatedData" where
  "FormSchema_safeParse c a s =
     z_object
       (z_string (Some ''Please select a customer.'') ''customerId'' c)
       (z_gt (Fin 0) ''Please enter an amount greater than $0.'' ''amount''
          (z_coerce_number ''amount'' a))
       (z_enum status_values (Some ''Please select an invoice status.'') ''status'' s)"

definition CreateInvoice_safeParse ::
  "formValue option \<Rightarrow> formValue option \<Rightarrow> formValue option \<Rightarrow> issue list + validatedData" where
  "CreateInvoice_safeParse = FormSchema_safeParse"

definition UpdateInvoice_safeParse ::
  "formValue option \<Rightarrow> formValue option \<Rightarrow> formValue option \<Rightarrow> issue list + validatedData" where
  "UpdateInvoice_safeParse = FormSchema_safeParse"

text \<open>
  \<open>FormSchema\<close> of the second file, whose \<open>createInvoice\<close> calls \<open>parse\<close>: no messages
  of its own and no bound on the amount.
\<close>

definition CreateInvoice_strict_safeParse ::
  "formValue option \<Rightarrow> formValue option \<Rightarrow> formValue option \<Rightarrow> issue list + validatedData" where
  "CreateInvoice_strict_safeParse c a s =
     z_object
       (z_string None ''customerId'' c)
       (z_coerce_number ''amount'' a)
       (z_enum status_values None ''status'' s)"

text \<open>\<open>error.flatten().fieldErrors\<close>: the messages by field; a field without issue is absent.\<close>

record fieldErrors =
  customerId_errors :: "string list option"
  amount_errors :: "string list option"
  status_errors :: "string list option"

definition messages_of :: "string \<Rightarrow> issue list \<Rightarrow> string list option" where
  "messages_of p issues =
     (let ms = map issue_message (filter (\<lambda>i. issue_path i = p) issues)
      in if ms = [] then None else Some ms)"

definition flatten_fieldErrors :: "issue list \<Rightarrow> fieldErrors" where
  "flatten_fieldErrors issues =
     \<lparr>customerId_errors = messages_of ''customerId'' issues,
      amount_errors = messages_of ''amount'' issues,
      status_errors = messages_of ''status'' issues\<rparr>"

section \<open>The server actions\<close>

record State =
  errors :: "fieldErrors option"
  message :: "string option"

text \<open>The statements sent to the database, with their parameters in the order of the text.\<close>

datatype statement =
    INSERT string number invoiceStatus string
  | UPDATE string number invoiceStatus string
  | DELETE string

text \<open>
  What an action does to the outside, in order: what it prints, the statement it sends,
  the path it revalidates.
\<close>

datatype event =
    ConsoleLog "issue list + validatedData"
  | ConsoleError string
  | Sql statement
  | RevalidatePath string

datatype exception = ZodError "issue list" | DatabaseError statement

text \<open>
  How a call ends: it returns a \<open>State\<close>, it returns nothing, \<open>redirect\<close> ends it (the
  framework's control-flow exception, which never comes back to the action), or an
  exception leaves it.
\<close>

datatype outcome =
    Returned State
  | ReturnedVoid
  | Redirected string
  | Thrown exception

text \<open>\<open>new Date().toISOString().split('T')[0]\<close>, with the ISO string of the clock given.\<close>

definition date_of :: "string \<Rightarrow> string" where
  "date_of isoString = takeWhile (\<lambda>c. c \<noteq> CHR ''T'') isoString"

text \<open>
  The database is a parameter \<open>db\<close>: \<open>db stmt\<close> says whether the statement succeeds
  (otherwise \<open>await sql\<close> throws); \<open>now\<close> is the clock's ISO string. The parameter
  \<open>id\<close> of the source is \<open>invoice_id\<close>.
\<close>

definition createInvoice ::
  "(statement \<Rightarrow> bool) \<Rightarrow> string \<Rightarrow> State \<Rightarrow> FormData \<Rightarrow> event list \<times> outcome" where
  "createInvoice db now prevState formData =
     (let validatedFields =
            CreateInvoice_safeParse (formData_get formData ''customerId'')
              (formData_get formData ''amount'') (formData_get formData ''status'')
      in case validatedFields of
           Inl issues \<Rightarrow>
             ([ConsoleLog validatedFields],
              Returned \<lparr>errors = Some (flatten_fieldErrors issues),
                        message = Some ''Missing Fields. Failed to Create Invoice.''\<rparr>)
         | Inr data \<Rightarrow>
             (let amountInCents = num_times (amount data) (Fin 100);
                  date = date_of now;
                  stmt = INSERT (customerId data) amountInCents (status data) date
              in ([ConsoleLog validatedFields, Sql stmt]
                    @ (if db stmt then []
                       else [ConsoleError ''Database Error: Failed to Create Invoice.''])
                    @ [RevalidatePath ''/dashboard/invoices''],
                  Redirected ''/dashboard/invoices'')))"

definition updateInvoice ::
  "(statement \<Rightarrow> bool) \<Rightarrow> string \<Rightarrow> State \<Rightarrow> FormData \<Rightarrow> event list \<times> outcome" where
  "updateInvoice db invoice_id preState formData =
     (let validatedFields =
            UpdateInvoice_safeParse (formData_get formData ''customerId'')
              (formData_get formData ''amount'') (formData_get formData ''status'')
      in case validatedFields of
           Inl issues \<Rightarrow>
             ([],
              Returned \<lparr>errors = Some (flatten_fieldErrors issues),
                        message = Some ''Missing Fields. Failed to Update Invoice.''\<rparr>)
         | Inr data \<Rightarrow>
             (let amountInCents = num_times (amount data) (Fin 100);
                  stmt = UPDATE (customerId data) amountInCents (status data) invoice_id
              in ([Sql stmt]
                    @ (if db stmt then []
                       else [ConsoleError ''Database Error: Failed to Update Invoice.''])
                    @ [RevalidatePath ''/dashboard/invoices''],
                  Redirected ''/dashboard/invoices'')))"

definition deleteInvoice :: "(statement \<Rightarrow> bool) \<Rightarrow> string \<Rightarrow> event list \<times> outcome" where
  "deleteInvoice db invoice_id =
     (let stmt = DELETE invoice_id
      in if db stmt then ([Sql stmt, RevalidatePath ''/dashboard/invoices''], ReturnedVoid)
         else ([Sql stmt, ConsoleError ''Database Error: Failed to Delete Invoice.''],
               ReturnedVoid))"

text \<open>
  \<open>createInvoice\<close> of the second file: \<open>parse\<close> throws the \<open>ZodError\<close>, and \<open>await sql\<close>
  stands outside any \<open>try\<close>, so a failing statement throws out of the action.
\<close>

definition createInvoice_strict ::
  "(statement \<Rightarrow> bool) \<Rightarrow> string \<Rightarrow> FormData \<Rightarrow> event list \<times> outcome" where
  "createInvoice_strict db now formData =
     (case CreateInvoice_strict_safeParse (formData_get formData ''customerId'')
             (formData_get formData ''amount'') (formData_get formData ''status'') of
        Inl issues \<Rightarrow> ([], Thrown (ZodError issues))
      | Inr data \<Rightarrow>
          (let amountInCents = num_times (amount data) (Fin 100);
               date = date_of now;
               stmt = INSERT (customerId data) amountInCents (status data) date
           in if db stmt
              then ([Sql stmt, RevalidatePath ''/dashboard/invoices''],
                    Redirected ''/dashboard/invoices'')
              else ([Sql stmt], Thrown (DatabaseError stmt))))"

section \<open>What the claims speak about\<close>

text \<open>The statements an action sent, in order, and the amount a statement carries.\<close>

definition statements :: "event list \<Rightarrow> statement list" where
  "statements evs = concat (map (\<lambda>ev. case ev of Sql stmt \<Rightarrow> [stmt] | _ \<Rightarrow> []) evs)"

fun stmt_amount :: "statement \<Rightarrow> number option" where
  "stmt_amount (INSERT c a s d) = Some a"
| "stmt_amount (UPDATE c a s i) = Some a"
| "stmt_amount (DELETE i) = None"

text \<open>Two databases: one where every statement succeeds, one where every statement fails.\<close>

definition db_succeeds :: "statement \<Rightarrow> bool" where
  "db_succeeds stmt = True"

definition db_fails :: "statement \<Rightarrow> bool" where
  "db_fails stmt = False"

definition is_Thrown :: "outcome \<Rightarrow> bool" where
  "is_Thrown out = (case out of Thrown e \<Rightarrow> True | _ \<Rightarrow> False)"

text \<open>
  The normaliser as the specification words it: \<open>round(amount * 100)\<close>, half up, on the
  exact product.
\<close>

definition round_half_up :: "rat \<Rightarrow> int" where
  "round_half_up x = \<lfloor>x + 1 / 2\<rfloor>"

definition spec_amountCents :: "rat \<Rightarrow> number" where
  "spec_amountCents a = Fin (of_int (round_half_up (a * 100)))"


subsection \<open>The table \<open>invoices\<close>\<close>

text \<open>
  The effect of the three statements on the rows of \<open>invoices\<close>, read off their SQL text.
  \<open>INSERT\<close> names four columns and the store supplies the id (\<open>new_id\<close>); \<open>UPDATE\<close> sets
  three columns of the rows whose id matches; \<open>DELETE\<close> removes those rows. A statement
  that fails changes nothing.
\<close>

record invoice_row =
  row_id :: string
  row_customer_id :: string
  row_amount :: number
  row_status :: invoiceStatus
  row_date :: string

fun exec :: "string \<Rightarrow> statement \<Rightarrow> invoice_row list \<Rightarrow> invoice_row list" where
  "exec new_id (INSERT c a s d) rows =
     rows @ [\<lparr>row_id = new_id, row_customer_id = c, row_amount = a, row_status = s,
              row_date = d\<rparr>]"
| "exec new_id (UPDATE c a s i) rows =
     map (\<lambda>r. if row_id r = i
              then r\<lparr>row_customer_id := c, row_amount := a, row_status := s\<rparr> else r) rows"
| "exec new_id (DELETE i) rows = filter (\<lambda>r. row_id r \<noteq> i) rows"

definition run_event ::
  "(statement \<Rightarrow> bool) \<Rightarrow> string \<Rightarrow> invoice_row list \<Rightarrow> event \<Rightarrow> invoice_row list" where
  "run_event db new_id rows ev =
     (case ev of Sql stmt \<Rightarrow> if db stmt then exec new_id stmt rows else rows | _ \<Rightarrow> rows)"

definition run_events ::
  "(statement \<Rightarrow> bool) \<Rightarrow> string \<Rightarrow> event list \<Rightarrow> invoice_row list \<Rightarrow> invoice_row list" where
  "run_events db new_id evs rows = foldl (run_event db new_id) rows evs"

text \<open>
  Modelled from the spec: the declaration of the table \<open>invoices\<close> is not in the source;
  the specification (external interfaces) gives its schema as
  \<open>invoices(id, customer_id, amount, status, date)\<close> with the amount stored as integer
  cents. A column of integers refuses a value that is no integer, so on this store a
  statement runs only when the amount it carries is one; it may still fail for any other
  reason, which \<open>db\<close> decides.
\<close>

definition is_integer :: "number \<Rightarrow> bool" where
  "is_integer n = (case n of Fin a \<Rightarrow> a = of_int \<lfloor>a\<rfloor> | _ \<Rightarrow> False)"

definition integer_cents_store :: "(statement \<Rightarrow> bool) \<Rightarrow> statement \<Rightarrow> bool" where
  "integer_cents_store db stmt =
     (db stmt \<and> (case stmt_amount stmt of None \<Rightarrow> True | Some n \<Rightarrow> is_integer n))"

subsection \<open>Validation of a form, and example inputs\<close>

text \<open>
  The validation both reporting actions start with, and the one of the throwing
  \<open>createInvoice\<close>: the schema applied to the three fields read from the form.
\<close>

definition validate :: "FormData \<Rightarrow> issue list + validatedData" where
  "validate formData =
     FormSchema_safeParse (formData_get formData ''customerId'')
       (formData_get formData ''amount'') (formData_get formData ''status'')"

definition validate_strict :: "FormData \<Rightarrow> issue list + validatedData" where
  "validate_strict formData =
     CreateInvoice_strict_safeParse (formData_get formData ''customerId'')
       (formData_get formData ''amount'') (formData_get formData ''status'')"

definition invoice_form :: "string \<Rightarrow> string \<Rightarrow> string \<Rightarrow> FormData" where
  "invoice_form c a s =
     [(''customerId'', StrValue c), (''amount'', StrValue a), (''status'', StrValue s)]"

definition example_now :: string where
  "example_now = ''2024-03-05T10:15:30.000Z''"

definition initial_state :: State where
  "initial_state = \<lparr>errors = None, message = None\<rparr>"

definition example_rows :: "invoice_row list" where
  "example_rows =
     [\<lparr>row_id = ''inv-9'', row_customer_id = ''c0'', row_amount = Fin 700,
       row_status = Pending, row_date = ''2023-12-31''\<rparr>,
      \<lparr>row_id = ''inv-10'', row_customer_id = ''c2'', row_amount = Fin 100,
       row_status = Paid, row_date = ''2024-01-15''\<rparr>]"

section \<open>Properties of the number model\<close>

lemma ilog2_bounds: "0 < n \<Longrightarrow> 2 ^ ilog2 n \<le> n \<and> n < 2 ^ Suc (ilog2 n)"
proof (induction n rule: ilog2.induct)
  case (1 n)
  show ?case
  proof (cases "n < 2")
    case True
    with "1.prems" show ?thesis by (simp add: ilog2.simps)
  next
    case False
    then have pos: "0 < n div 2" by simp
    from "1.IH" [OF False pos]
    have "2 ^ ilog2 (n div 2) \<le> n div 2" and "n div 2 < 2 ^ Suc (ilog2 (n div 2))"
      by simp_all
    moreover have "ilog2 n = Suc (ilog2 (n div 2))"
      using False by (subst ilog2.simps) simp
    ultimately show ?thesis by auto
  qed
qed

lemma ilog2_unique:
  assumes "2 ^ j \<le> n" and "n < 2 ^ Suc j"
  shows "ilog2 n = j"
proof -
  have pos: "0 < n" using assms(1) by (metis less_le_trans zero_less_numeral zero_less_power)
  from ilog2_bounds [OF pos] have b: "2 ^ ilog2 n \<le> n" "n < 2 ^ Suc (ilog2 n)" by simp_all
  have "(2::nat) ^ j < 2 ^ Suc (ilog2 n)" using assms(1) b(2) by linarith
  then have "j < Suc (ilog2 n)" by (simp only: power_strict_increasing_iff one_less_numeral_iff semiring_norm)
  moreover have "(2::nat) ^ ilog2 n < 2 ^ Suc j" using assms(2) b(1) by linarith
  then have "ilog2 n < Suc j" by (simp only: power_strict_increasing_iff one_less_numeral_iff semiring_norm)
  ultimately show ?thesis by simp
qed

lemma rhe_of_int: "rhe (of_int z) = z"
  by (simp add: rhe_def)

lemma rhe_lower: "\<lfloor>x\<rfloor> \<le> rhe x"
  by (simp add: rhe_def Let_def)

lemma rhe_upper: "rhe x \<le> \<lceil>x\<rceil>"
  unfolding rhe_def Let_def
  by (auto simp: ceiling_altdef)


lemma ilog2_shift:
  assumes "0 < n"
  shows "ilog2 (n * 2 ^ d) = ilog2 n + d"
proof (rule ilog2_unique)
  from ilog2_bounds [OF assms] have b: "2 ^ ilog2 n \<le> n" "n < 2 ^ Suc (ilog2 n)" by simp_all
  show "2 ^ (ilog2 n + d) \<le> n * 2 ^ d"
    using b(1) by (simp add: power_add)
  show "n * 2 ^ d < 2 ^ Suc (ilog2 n + d)"
    using b(2) by (simp add: power_add)
qed

lemma ilog2_le:
  assumes "0 < n" and "n < 2 ^ Suc j"
  shows "ilog2 n \<le> j"
proof -
  from ilog2_bounds [OF assms(1)] have "2 ^ ilog2 n \<le> n" by simp
  with assms(2) have "(2::nat) ^ ilog2 n < 2 ^ Suc j" by linarith
  then have "ilog2 n < Suc j"
    by (simp only: power_strict_increasing_iff one_less_numeral_iff semiring_norm)
  then show ?thesis by simp
qed

lemma round64_dyadic:
  assumes n: "0 < n" "n < 2 ^ Suc frac_bits" and k: "k \<le> denorm_exp"
  shows "round64 (of_nat n / 2 ^ k) = Fin (of_nat n / 2 ^ k)"
proof -
  define d where "d = denorm_exp - k"
  define q :: rat where "q = of_nat n / 2 ^ k"
  have qpos: "0 < q" using n(1) by (simp add: q_def)
  have p: "(2::rat) ^ denorm_exp = 2 ^ k * 2 ^ d"
    using k by (simp add: d_def flip: power_add)
  have a: "\<bar>q\<bar> * 2 ^ denorm_exp = of_int (int (n * 2 ^ d))"
    using qpos by (simp add: q_def p)
  have fl: "nat \<lfloor>\<bar>q\<bar> * 2 ^ denorm_exp\<rfloor> = n * 2 ^ d"
    by (simp only: a floor_of_int nat_int)
  have le52: "ilog2 n \<le> frac_bits" using ilog2_le [OF n] .
  define sh where "sh = ilog2 (n * 2 ^ d) - frac_bits"
  have sh: "sh \<le> d" using le52 by (simp add: sh_def ilog2_shift [OF n(1)])
  have split: "(2::rat) ^ d = 2 ^ (d - sh) * 2 ^ sh"
    using sh by (simp flip: power_add)
  have m: "\<bar>q\<bar> * 2 ^ denorm_exp / 2 ^ sh = of_int (int (n * 2 ^ (d - sh)))"
    unfolding a by (simp add: split)
  have r: "rhe (\<bar>q\<bar> * 2 ^ denorm_exp / 2 ^ sh) = int (n * 2 ^ (d - sh))"
    unfolding m by (rule rhe_of_int)
  have v: "of_int (int (n * 2 ^ (d - sh))) * 2 ^ sh / 2 ^ denorm_exp = q"
    by (simp add: q_def p split)
  have "q < 2 ^ overflow_exp"
  proof -
    have "q \<le> of_nat n" using n(1) by (simp add: q_def field_simps)
    also have "\<dots> < 2 ^ Suc frac_bits"
      using n(2) by (metis of_nat_less_iff of_nat_numeral of_nat_power)
    also have "\<dots> \<le> 2 ^ overflow_exp"
      by (rule power_increasing) (simp_all add: frac_bits_def overflow_exp_def)
    finally show ?thesis .
  qed
  then have small: "\<not> 2 ^ overflow_exp \<le> q" by simp
  have "round64 q = Fin q"
    unfolding round64_def Let_def fl sh_def [symmetric] r v
    using qpos small by simp
  then show ?thesis by (simp add: q_def)
qed


lemma round64_normal:
  assumes q: "0 < q" and k: "k \<le> denorm_exp"
    and lo: "2 ^ frac_bits \<le> q * 2 ^ k" and hi: "q * 2 ^ k < 2 ^ Suc frac_bits"
  shows "round64 q = Fin (of_int (rhe (q * 2 ^ k)) / 2 ^ k)"
proof -
  define d where "d = denorm_exp - k"
  define t where "t = q * 2 ^ k"
  have p: "(2::rat) ^ denorm_exp = 2 ^ k * 2 ^ d"
    using k by (simp add: d_def flip: power_add)
  have a: "\<bar>q\<bar> * 2 ^ denorm_exp = t * 2 ^ d"
    using q by (simp add: t_def p)
  have "of_int (2 ^ (frac_bits + d)) \<le> t * 2 ^ d"
    using lo by (simp add: t_def power_add)
  then have l1: "2 ^ (frac_bits + d) \<le> \<lfloor>t * 2 ^ d\<rfloor>"
    by (simp only: le_floor_iff)
  have "t * 2 ^ d < of_int (2 ^ Suc (frac_bits + d))"
    using hi by (simp add: t_def power_add)
  then have u1: "\<lfloor>t * 2 ^ d\<rfloor> < 2 ^ Suc (frac_bits + d)"
    by (simp only: floor_less_iff)
  have fl0: "0 \<le> \<lfloor>t * 2 ^ d\<rfloor>"
    using l1 by (rule order_trans [rotated]) simp
  have "int (2 ^ (frac_bits + d)) \<le> \<lfloor>t * 2 ^ d\<rfloor>"
    using l1 by simp
  then have l2: "2 ^ (frac_bits + d) \<le> nat \<lfloor>t * 2 ^ d\<rfloor>"
    by linarith
  have "\<lfloor>t * 2 ^ d\<rfloor> < int (2 ^ Suc (frac_bits + d))"
    using u1 by simp
  then have u2: "nat \<lfloor>t * 2 ^ d\<rfloor> < 2 ^ Suc (frac_bits + d)"
    using fl0 by linarith
  have il: "ilog2 (nat \<lfloor>t * 2 ^ d\<rfloor>) - frac_bits = d"
    using ilog2_unique [OF l2 u2] by simp
  have m: "t * 2 ^ d / 2 ^ d = t" by simp
  have v: "(of_int (rhe t) :: rat) * 2 ^ d / 2 ^ denorm_exp = of_int (rhe t) / 2 ^ k"
    by (simp add: p)
  have "rhe t \<le> \<lceil>t\<rceil>" by (rule rhe_upper)
  also have "\<dots> \<le> 2 ^ Suc frac_bits"
    using hi unfolding t_def [symmetric] by (simp add: ceiling_le_iff)
  finally have mb: "rhe t \<le> 2 ^ Suc frac_bits" .
  have "of_int (rhe t) / 2 ^ k \<le> (of_int (rhe t) :: rat)"
  proof -
    have "0 \<le> \<lfloor>t\<rfloor>" using q by (simp add: t_def)
    with rhe_lower [of t] have "0 \<le> rhe t" by linarith
    then have "0 \<le> (of_int (rhe t) :: rat)" by simp
    moreover have "(1::rat) \<le> 2 ^ k" by simp
    ultimately have "(of_int (rhe t) :: rat) * 1 \<le> of_int (rhe t) * 2 ^ k"
      by (rule mult_left_mono [rotated])
    then show ?thesis by (simp add: divide_le_eq)
  qed
  also have "\<dots> \<le> 2 ^ Suc frac_bits"
    using mb by (metis of_int_le_iff of_int_numeral of_int_power)
  also have "\<dots> < 2 ^ overflow_exp"
    by (rule power_strict_increasing) (simp_all add: frac_bits_def overflow_exp_def)
  finally have small: "\<not> (2::rat) ^ overflow_exp \<le> of_int (rhe t) / 2 ^ k" by simp
  show ?thesis
    unfolding round64_def Let_def a il m v t_def [symmetric]
    using q small by simp
qed

lemma round64_zero: "round64 0 = Fin 0"
proof -
  have "\<not> (2::rat) ^ overflow_exp \<le> 0" by (simp add: not_le)
  then show ?thesis
    by (simp add: round64_def Let_def ilog2.simps [of 0] rhe_def)
qed

lemma round64_uminus:
  assumes "0 < q"
  shows "round64 (- q) = (case round64 q of Fin v \<Rightarrow> Fin (- v) | PosInf \<Rightarrow> NegInf | x \<Rightarrow> x)"
  using assms by (simp add: round64_def Let_def)

lemma round64_not_NaN: "round64 q \<noteq> NaN"
  by (simp add: round64_def Let_def)



lemma floor_rat_numeral:
  "\<lfloor>numeral a / numeral b :: rat\<rfloor> = numeral a div numeral b"
proof -
  have "\<lfloor>of_int (numeral a) / of_int (numeral b) :: rat\<rfloor> = numeral a div numeral b"
    by (rule floor_divide_of_int_eq)
  then show ?thesis by (simp only: of_int_numeral)
qed

lemma rhe_nearest: "\<bar>of_int (rhe x) - x\<bar> \<le> 1 / 2"
proof -
  have "of_int \<lfloor>x\<rfloor> \<le> x" and "x < of_int \<lfloor>x\<rfloor> + 1" by linarith+
  then show ?thesis
    unfolding rhe_def Let_def by (auto simp: abs_le_iff)
qed

text \<open>
  A finite result of \<open>round64\<close> is a multiple of the spacing \<open>2 ^ sh * 2 ^ -1074\<close> of its
  binade and lies within half that spacing of the rational it rounds.
\<close>

lemma round64_half_spacing:
  assumes "round64 q = Fin r"
  shows "\<bar>r - q\<bar> * 2 ^ denorm_exp
           \<le> 2 ^ (ilog2 (nat \<lfloor>\<bar>q\<bar> * 2 ^ denorm_exp\<rfloor>) - frac_bits) / 2"
proof -
  define a where "a = \<bar>q\<bar> * 2 ^ denorm_exp"
  define sh where "sh = ilog2 (nat \<lfloor>a\<rfloor>) - frac_bits"
  define m where "m = rhe (a / 2 ^ sh)"
  have r: "r = (if 0 < q then of_int m * 2 ^ sh / 2 ^ denorm_exp
                else - (of_int m * 2 ^ sh / 2 ^ denorm_exp))"
    using assms
    unfolding round64_def Let_def a_def [symmetric] sh_def [symmetric] m_def [symmetric]
    by (simp split: if_splits)
  have "\<bar>r - q\<bar> = \<bar>of_int m * 2 ^ sh / 2 ^ denorm_exp - \<bar>q\<bar>\<bar>"
    using r by (cases "0 < q") (simp_all add: abs_minus_commute)
  then have "\<bar>r - q\<bar> * 2 ^ denorm_exp
      = \<bar>(of_int m * 2 ^ sh / 2 ^ denorm_exp - \<bar>q\<bar>) * 2 ^ denorm_exp\<bar>"
    by (simp add: abs_mult)
  also have "(of_int m * 2 ^ sh / 2 ^ denorm_exp - \<bar>q\<bar>) * 2 ^ denorm_exp
      = of_int m * 2 ^ sh - a"
    by (simp add: a_def left_diff_distrib)
  also have "of_int m * 2 ^ sh - a = (of_int m - a / 2 ^ sh) * 2 ^ sh"
    by (simp add: left_diff_distrib)
  also have "\<bar>(of_int m - a / 2 ^ sh) * 2 ^ sh\<bar> = \<bar>of_int m - a / 2 ^ sh\<bar> * 2 ^ sh"
    by (simp add: abs_mult)
  also have "\<dots> \<le> 1 / 2 * 2 ^ sh"
    unfolding m_def by (intro mult_right_mono rhe_nearest) simp
  finally show ?thesis by (simp add: sh_def a_def)
qed

section \<open>The actions, case by case\<close>



lemma createInvoice_valid:
  assumes "validate formData = Inr d"
  shows "createInvoice db now prevState formData =
     ([ConsoleLog (Inr d),
       Sql (INSERT (customerId d) (num_times (amount d) (Fin 100)) (status d) (date_of now))]
        @ (if db (INSERT (customerId d) (num_times (amount d) (Fin 100)) (status d) (date_of now))
           then [] else [ConsoleError ''Database Error: Failed to Create Invoice.''])
        @ [RevalidatePath ''/dashboard/invoices''],
      Redirected ''/dashboard/invoices'')"
  using assms by (simp add: createInvoice_def validate_def CreateInvoice_safeParse_def Let_def)

lemma createInvoice_invalid:
  assumes "validate formData = Inl issues"
  shows "createInvoice db now prevState formData =
     ([ConsoleLog (Inl issues)],
      Returned \<lparr>errors = Some (flatten_fieldErrors issues),
                message = Some ''Missing Fields. Failed to Create Invoice.''\<rparr>)"
  using assms by (simp add: createInvoice_def validate_def CreateInvoice_safeParse_def Let_def)

lemma updateInvoice_valid:
  assumes "validate formData = Inr d"
  shows "updateInvoice db invoice_id preState formData =
     ([Sql (UPDATE (customerId d) (num_times (amount d) (Fin 100)) (status d) invoice_id)]
        @ (if db (UPDATE (customerId d) (num_times (amount d) (Fin 100)) (status d) invoice_id)
           then [] else [ConsoleError ''Database Error: Failed to Update Invoice.''])
        @ [RevalidatePath ''/dashboard/invoices''],
      Redirected ''/dashboard/invoices'')"
  using assms by (simp add: updateInvoice_def validate_def UpdateInvoice_safeParse_def Let_def)

lemma updateInvoice_invalid:
  assumes "validate formData = Inl issues"
  shows "updateInvoice db invoice_id preState formData =
     ([],
      Returned \<lparr>errors = Some (flatten_fieldErrors issues),
                message = Some ''Missing Fields. Failed to Update Invoice.''\<rparr>)"
  using assms by (simp add: updateInvoice_def validate_def UpdateInvoice_safeParse_def Let_def)


lemma createInvoice_strict_valid:
  assumes "validate_strict formData = Inr d"
  shows "createInvoice_strict db now formData =
     (if db (INSERT (customerId d) (num_times (amount d) (Fin 100)) (status d) (date_of now))
      then ([Sql (INSERT (customerId d) (num_times (amount d) (Fin 100)) (status d) (date_of now)),
             RevalidatePath ''/dashboard/invoices''],
            Redirected ''/dashboard/invoices'')
      else ([Sql (INSERT (customerId d) (num_times (amount d) (Fin 100)) (status d) (date_of now))],
            Thrown (DatabaseError
              (INSERT (customerId d) (num_times (amount d) (Fin 100)) (status d) (date_of now)))))"
  using assms by (simp add: createInvoice_strict_def validate_strict_def Let_def)

lemma createInvoice_strict_invalid:
  assumes "validate_strict formData = Inl issues"
  shows "createInvoice_strict db now formData = ([], Thrown (ZodError issues))"
  using assms by (simp add: createInvoice_strict_def validate_strict_def)

lemmas number_parse_defs =
  Number_def string_to_number_def trim_def is_white_space_def non_decimal_literal_def
  radix_of_prefix_def str_decimal_literal_def str_unsigned_def str_unsigned_decimal_def
  is_digit_def digit_value_def digits_value_def exponent_part_def pow10_def
  decimal_digits_def

lemmas schema_defs =
  validate_def validate_strict_def FormSchema_safeParse_def
  CreateInvoice_strict_safeParse_def z_object_def z_string_def z_gt_def
  z_coerce_number_def z_enum_def issues_of_def status_values_def formData_get_def
  invoice_form_def

lemma round64_15: "round64 15 = Fin 15"
  using round64_dyadic [of 15 0] by (simp add: frac_bits_def)

lemma Number_15: "Number (Some (StrValue ''15.00'')) = Fin 15"
  by (simp add: number_parse_defs round64_15)

lemma validate_example:
  "validate (invoice_form ''c1'' ''15.00'' ''pending'')
     = Inr \<lparr>customerId = ''c1'', amount = Fin 15, status = Pending\<rparr>"
  by (simp add: schema_defs Number_15)

lemma validate_strict_example:
  "validate_strict (invoice_form ''c1'' ''15.00'' ''pending'')
     = Inr \<lparr>customerId = ''c1'', amount = Fin 15, status = Pending\<rparr>"
  by (simp add: schema_defs Number_15)

lemma round64_1500: "round64 1500 = Fin 1500"
  using round64_dyadic [of 1500 0] by (simp add: frac_bits_def)

lemma date_of_example: "date_of example_now = ''2024-03-05''"
  by (simp add: date_of_def example_now_def)

lemma validate_strict_issues_nonempty:
  "validate_strict formData = Inl issues \<Longrightarrow> issues \<noteq> []"
  by (auto simp: validate_strict_def CreateInvoice_strict_safeParse_def z_object_def z_string_def
      z_coerce_number_def z_enum_def Let_def
      split: option.splits formValue.splits sum.splits if_splits)

lemma validate_strict_missing_status:
  "validate_strict [(''customerId'', StrValue ''c1''), (''amount'', StrValue ''15.00'')]
     = Inl [Issue ''status'' invalid_type
              (''Expected '' @ quoted ''pending'' @ '' | '' @ quoted ''paid'' @ '', received null'')]"
  by (simp add: schema_defs Number_15 received_type_def)

text \<open>\<open>UPDATE\<close> leaves the id and the date of every row, and the rows of other ids, as they were.\<close>

lemma exec_UPDATE_frame:
  "map row_date (exec new_id (UPDATE c a s i) rows) = map row_date rows
   \<and> map row_id (exec new_id (UPDATE c a s i) rows) = map row_id rows"
  by (induction rows) simp_all

lemma exec_UPDATE_other_rows:
  "filter (\<lambda>r. row_id r \<noteq> i) (exec new_id (UPDATE c a s i) rows)
     = filter (\<lambda>r. row_id r \<noteq> i) rows"
  by (induction rows) simp_all

subsection \<open>The issues of a rejected form\<close>

lemma z_object_Inl:
  "isl c \<or> isl a \<or> isl s \<Longrightarrow> z_object c a s = Inl (issues_of c @ issues_of a @ issues_of s)"
  by (auto simp: z_object_def issues_of_def split: sum.splits)

lemma z_string_path: "i \<in> set (issues_of (z_string m p v)) \<Longrightarrow> issue_path i = p"
  by (auto simp: z_string_def issues_of_def split: option.splits formValue.splits)

lemma z_number_path:
  "i \<in> set (issues_of (z_gt bound msg p (z_coerce_number p v))) \<Longrightarrow> issue_path i = p"
  by (auto simp: z_gt_def z_coerce_number_def issues_of_def Let_def split: if_splits)

lemma z_enum_path: "i \<in> set (issues_of (z_enum values m p v)) \<Longrightarrow> issue_path i = p"
  by (auto simp: z_enum_def issues_of_def split: option.splits formValue.splits)

lemma filter_other_path:
  assumes "\<And>i. i \<in> set issues \<Longrightarrow> issue_path i = p" and "p \<noteq> q"
  shows "filter (\<lambda>i. issue_path i = q) issues = []"
  using assms by (auto simp: filter_empty_conv)

lemma filter_same_path:
  assumes "\<And>i. i \<in> set issues \<Longrightarrow> issue_path i = p"
  shows "filter (\<lambda>i. issue_path i = p) issues = issues"
  using assms by (auto simp: filter_id_conv)

text \<open>The messages of one field are those of the issues its own parser raised.\<close>

lemma messages_of_fields:
  fixes c a s
  defines "ic \<equiv> issues_of (z_string (Some ''Please select a customer.'') ''customerId'' c)"
    and "ia \<equiv> issues_of (z_gt (Fin 0) ''Please enter an amount greater than $0.'' ''amount''
                   (z_coerce_number ''amount'' a))"
    and "iss \<equiv> issues_of (z_enum status_values (Some ''Please select an invoice status.'')
                   ''status'' s)"
  shows "messages_of ''amount'' (ic @ ia @ iss)
           = (if ia = [] then None else Some (map issue_message ia))"
    and "messages_of ''status'' (ic @ ia @ iss)
           = (if iss = [] then None else Some (map issue_message iss))"
proof -
  have c1: "filter (\<lambda>i. issue_path i = ''amount'') ic = []"
    unfolding ic_def
    by (rule filter_other_path [where p = "''customerId''"]) (simp_all add: z_string_path)
  have c2: "filter (\<lambda>i. issue_path i = ''status'') ic = []"
    unfolding ic_def
    by (rule filter_other_path [where p = "''customerId''"]) (simp_all add: z_string_path)
  have a1: "filter (\<lambda>i. issue_path i = ''amount'') ia = ia"
    unfolding ia_def by (rule filter_same_path) (rule z_number_path)
  have a2: "filter (\<lambda>i. issue_path i = ''status'') ia = []"
    unfolding ia_def
    by (rule filter_other_path [where p = "''amount''"]) (simp_all add: z_number_path)
  have s1: "filter (\<lambda>i. issue_path i = ''amount'') iss = []"
    unfolding iss_def
    by (rule filter_other_path [where p = "''status''"]) (simp_all add: z_enum_path)
  have s2: "filter (\<lambda>i. issue_path i = ''status'') iss = iss"
    unfolding iss_def by (rule filter_same_path) (rule z_enum_path)
  show "messages_of ''amount'' (ic @ ia @ iss)
           = (if ia = [] then None else Some (map issue_message ia))"
    unfolding messages_of_def Let_def filter_append c1 a1 s1 by simp
  show "messages_of ''status'' (ic @ ia @ iss)
           = (if iss = [] then None else Some (map issue_message iss))"
    unfolding messages_of_def Let_def filter_append c2 a2 s2 by simp
qed

lemma amount_errors_invalid:
  assumes "Number a = NaN \<or> num_le (Number a) (Fin 0)"
  shows "\<exists>issues. FormSchema_safeParse c a s = Inl issues
           \<and> messages_of ''amount'' issues
               = Some [if Number a = NaN then ''Expected number, received nan''
                       else ''Please enter an amount greater than $0.'']"
proof -
  let ?a = "z_gt (Fin 0) ''Please enter an amount greater than $0.'' ''amount''
              (z_coerce_number ''amount'' a)"
  let ?all = "issues_of (z_string (Some ''Please select a customer.'') ''customerId'' c)
             @ issues_of ?a
             @ issues_of (z_enum status_values (Some ''Please select an invoice status.'')
                   ''status'' s)"
  have ia: "?a = Inl [Issue ''amount'' (if Number a = NaN then invalid_type else too_small)
                        (if Number a = NaN then ''Expected number, received nan''
                         else ''Please enter an amount greater than $0.'')]"
    using assms by (auto simp: z_gt_def z_coerce_number_def Let_def)
  then have "isl ?a" by simp
  then have eq: "FormSchema_safeParse c a s = Inl ?all"
    unfolding FormSchema_safeParse_def by (intro z_object_Inl) simp
  have iss: "issues_of ?a
      = [Issue ''amount'' (if Number a = NaN then invalid_type else too_small)
                        (if Number a = NaN then ''Expected number, received nan''
                         else ''Please enter an amount greater than $0.'')]"
    by (simp only: ia) (simp add: issues_of_def)
  have "messages_of ''amount'' ?all
      = (if issues_of ?a = [] then None else Some (map issue_message (issues_of ?a)))"
    by (rule messages_of_fields(1))
  also have "\<dots> = Some [if Number a = NaN then ''Expected number, received nan''
                        else ''Please enter an amount greater than $0.'']"
    by (simp add: iss)
  finally show ?thesis using eq by blast
qed

lemma status_errors_invalid:
  assumes "s \<noteq> Some (StrValue ''pending'')" and "s \<noteq> Some (StrValue ''paid'')"
  shows "\<exists>issues. FormSchema_safeParse c a s = Inl issues
           \<and> messages_of ''status'' issues
               = Some [case s of
                         Some (StrValue x) \<Rightarrow>
                           ''Invalid enum value. Expected '' @ quoted ''pending'' @ '' | ''
                             @ quoted ''paid'' @ '', received '' @ quoted x
                       | _ \<Rightarrow> ''Please select an invoice status.'']"
proof -
  let ?s = "z_enum status_values (Some ''Please select an invoice status.'') ''status'' s"
  let ?m = "case s of
              Some (StrValue x) \<Rightarrow>
                ''Invalid enum value. Expected '' @ quoted ''pending'' @ '' | ''
                  @ quoted ''paid'' @ '', received '' @ quoted x
            | _ \<Rightarrow> ''Please select an invoice status.''"
  let ?all = "issues_of (z_string (Some ''Please select a customer.'') ''customerId'' c)
             @ issues_of (z_gt (Fin 0) ''Please enter an amount greater than $0.'' ''amount''
                   (z_coerce_number ''amount'' a))
             @ issues_of ?s"
  have st: "?s = Inl [Issue ''status''
                        (case s of Some (StrValue x) \<Rightarrow> invalid_enum_value | _ \<Rightarrow> invalid_type)
                        ?m]"
    using assms
    by (auto simp: z_enum_def status_values_def split: option.splits formValue.splits)
  then have "isl ?s" by simp
  then have eq: "FormSchema_safeParse c a s = Inl ?all"
    unfolding FormSchema_safeParse_def by (intro z_object_Inl) simp
  have iss: "issues_of ?s
      = [Issue ''status''
           (case s of Some (StrValue x) \<Rightarrow> invalid_enum_value | _ \<Rightarrow> invalid_type) ?m]"
    by (simp only: st) (simp add: issues_of_def)
  have "messages_of ''status'' ?all
      = (if issues_of ?s = [] then None else Some (map issue_message (issues_of ?s)))"
    by (rule messages_of_fields(2))
  also have "\<dots> = Some [?m]"
    by (simp add: iss)
  finally show ?thesis using eq by blast
qed

lemma Number_abc: "Number (Some (StrValue ''abc'')) = NaN"
  by (simp add: number_parse_defs)

lemma Number_0: "Number (Some (StrValue ''0'')) = Fin 0"
  by (simp add: number_parse_defs round64_zero)

section \<open>Database failures\<close>

text \<open>
  Claim C2, as amended. In the three reporting actions \<open>createInvoice\<close>, \<open>updateInvoice\<close>
  and \<open>deleteInvoice\<close> a failing statement is caught: the action logs its
  \<open>Database Error\<close> line with \<open>console.error\<close> and no exception leaves it. The
  second \<open>createInvoice\<close>, which has no \<open>try\<close>, lets the failure of its statement
  leave the action as an exception.
\<close>

theorem database_failure_caught_in_reporting_actions:
  "\<not> is_Thrown (snd (createInvoice db now prevState formData))
   \<and> \<not> is_Thrown (snd (updateInvoice db invoice_id prevState formData))
   \<and> \<not> is_Thrown (snd (deleteInvoice db invoice_id))
   \<and> (\<forall>stmt. Sql stmt \<in> set (fst (createInvoice db now prevState formData)) \<and> \<not> db stmt
         \<longrightarrow> ConsoleError ''Database Error: Failed to Create Invoice.''
               \<in> set (fst (createInvoice db now prevState formData)))
   \<and> (\<forall>stmt. Sql stmt \<in> set (fst (updateInvoice db invoice_id prevState formData)) \<and> \<not> db stmt
         \<longrightarrow> ConsoleError ''Database Error: Failed to Update Invoice.''
               \<in> set (fst (updateInvoice db invoice_id prevState formData)))
   \<and> (\<forall>stmt. Sql stmt \<in> set (fst (deleteInvoice db invoice_id)) \<and> \<not> db stmt
         \<longrightarrow> ConsoleError ''Database Error: Failed to Delete Invoice.''
               \<in> set (fst (deleteInvoice db invoice_id)))
   \<and> (\<forall>stmt. Sql stmt \<in> set (fst (createInvoice_strict db now formData)) \<and> \<not> db stmt
         \<longrightarrow> snd (createInvoice_strict db now formData) = Thrown (DatabaseError stmt))"
proof -
  have del: "\<not> is_Thrown (snd (deleteInvoice db invoice_id))
     \<and> (\<forall>stmt. Sql stmt \<in> set (fst (deleteInvoice db invoice_id)) \<and> \<not> db stmt
         \<longrightarrow> ConsoleError ''Database Error: Failed to Delete Invoice.''
               \<in> set (fst (deleteInvoice db invoice_id)))"
    by (simp add: deleteInvoice_def Let_def is_Thrown_def)
  have cre: "\<not> is_Thrown (snd (createInvoice db now prevState formData))
     \<and> (\<forall>stmt. Sql stmt \<in> set (fst (createInvoice db now prevState formData)) \<and> \<not> db stmt
         \<longrightarrow> ConsoleError ''Database Error: Failed to Create Invoice.''
               \<in> set (fst (createInvoice db now prevState formData)))"
  proof (cases "validate formData")
    case (Inl issues)
    then show ?thesis by (simp add: createInvoice_invalid is_Thrown_def)
  next
    case (Inr d)
    then show ?thesis by (auto simp: createInvoice_valid is_Thrown_def)
  qed
  have upd: "\<not> is_Thrown (snd (updateInvoice db invoice_id prevState formData))
     \<and> (\<forall>stmt. Sql stmt \<in> set (fst (updateInvoice db invoice_id prevState formData)) \<and> \<not> db stmt
         \<longrightarrow> ConsoleError ''Database Error: Failed to Update Invoice.''
               \<in> set (fst (updateInvoice db invoice_id prevState formData)))"
  proof (cases "validate formData")
    case (Inl issues)
    then show ?thesis by (simp add: updateInvoice_invalid is_Thrown_def)
  next
    case (Inr d)
    then show ?thesis by (auto simp: updateInvoice_valid is_Thrown_def)
  qed
  have str: "\<forall>stmt. Sql stmt \<in> set (fst (createInvoice_strict db now formData)) \<and> \<not> db stmt
         \<longrightarrow> snd (createInvoice_strict db now formData) = Thrown (DatabaseError stmt)"
  proof (cases "validate_strict formData")
    case (Inl issues)
    then show ?thesis by (simp add: createInvoice_strict_invalid)
  next
    case (Inr d)
    then show ?thesis by (auto simp: createInvoice_strict_valid)
  qed
  from cre upd del str show ?thesis by blast
qed

text \<open>
  Claim C2 as stated fails: with a database that rejects the statement, the second
  \<open>createInvoice\<close> ends with the database exception and logs nothing.
\<close>

theorem database_failure_propagates_from_createInvoice_strict:
  "createInvoice_strict db_fails example_now (invoice_form ''c1'' ''15.00'' ''pending'')
     = ([Sql (INSERT ''c1'' (Fin 1500) Pending ''2024-03-05'')],
        Thrown (DatabaseError (INSERT ''c1'' (Fin 1500) Pending ''2024-03-05'')))"
  by (simp add: createInvoice_strict_valid [OF validate_strict_example] db_fails_def
      round64_1500 date_of_example)

text \<open>Claim C2, as amended, on the example form with a database that rejects every statement.\<close>

theorem database_failure_caught_witness:
  "ConsoleError ''Database Error: Failed to Create Invoice.''
     \<in> set (fst (createInvoice db_fails example_now initial_state
                   (invoice_form ''c1'' ''15.00'' ''pending'')))
   \<and> ConsoleError ''Database Error: Failed to Update Invoice.''
     \<in> set (fst (updateInvoice db_fails ''inv-9'' initial_state
                   (invoice_form ''c1'' ''15.00'' ''pending'')))
   \<and> ConsoleError ''Database Error: Failed to Delete Invoice.''
     \<in> set (fst (deleteInvoice db_fails ''inv-9''))
   \<and> snd (createInvoice_strict db_fails example_now (invoice_form ''c1'' ''15.00'' ''pending''))
       = Thrown (DatabaseError (INSERT ''c1'' (Fin 1500) Pending ''2024-03-05''))"
proof -
  let ?f = "invoice_form ''c1'' ''15.00'' ''pending''"
  have c: "Sql (INSERT ''c1'' (Fin 1500) Pending ''2024-03-05'')
             \<in> set (fst (createInvoice db_fails example_now initial_state ?f))
           \<and> \<not> db_fails (INSERT ''c1'' (Fin 1500) Pending ''2024-03-05'')"
    by (simp add: createInvoice_valid [OF validate_example] db_fails_def round64_1500
        date_of_example)
  have u: "Sql (UPDATE ''c1'' (Fin 1500) Pending ''inv-9'')
             \<in> set (fst (updateInvoice db_fails ''inv-9'' initial_state ?f))
           \<and> \<not> db_fails (UPDATE ''c1'' (Fin 1500) Pending ''inv-9'')"
    by (simp add: updateInvoice_valid [OF validate_example] db_fails_def round64_1500)
  have d: "Sql (DELETE ''inv-9'') \<in> set (fst (deleteInvoice db_fails ''inv-9''))
           \<and> \<not> db_fails (DELETE ''inv-9'')"
    by (simp add: deleteInvoice_def db_fails_def)
  have s: "Sql (INSERT ''c1'' (Fin 1500) Pending ''2024-03-05'')
             \<in> set (fst (createInvoice_strict db_fails example_now ?f))
           \<and> \<not> db_fails (INSERT ''c1'' (Fin 1500) Pending ''2024-03-05'')"
    by (simp add: createInvoice_strict_valid [OF validate_strict_example] db_fails_def
        round64_1500 date_of_example)
  from database_failure_caught_in_reporting_actions
         [of db_fails example_now initial_state ?f "''inv-9''"] c u d s
  show ?thesis by blast
qed

section \<open>After a successful validation\<close>

text \<open>
  Claim C4. When the form passes validation, \<open>createInvoice\<close> and \<open>updateInvoice\<close>
  revalidate the path \<open>/dashboard/invoices\<close> as their last effect, once, and then
  redirect to that same path, whether the statement succeeded or failed.
\<close>

theorem validated_create_update_invalidate_then_redirect:
  assumes "validate formData = Inr d"
  shows "last (fst (createInvoice db now prevState formData)) = RevalidatePath ''/dashboard/invoices''
       \<and> snd (createInvoice db now prevState formData) = Redirected ''/dashboard/invoices''
       \<and> last (fst (updateInvoice db invoice_id prevState formData))
           = RevalidatePath ''/dashboard/invoices''
       \<and> snd (updateInvoice db invoice_id prevState formData) = Redirected ''/dashboard/invoices''
       \<and> length (filter (\<lambda>ev. ev = RevalidatePath ''/dashboard/invoices'')
             (fst (createInvoice db now prevState formData))) = 1
       \<and> length (filter (\<lambda>ev. ev = RevalidatePath ''/dashboard/invoices'')
             (fst (updateInvoice db invoice_id prevState formData))) = 1"
  by (simp add: createInvoice_valid [OF assms] updateInvoice_valid [OF assms])

text \<open>
  Claim C4 on the example form with a database that rejects every statement: the error
  is logged, the path is revalidated, the call redirects.
\<close>

theorem validated_create_update_invalidate_then_redirect_witness:
  "fst (createInvoice db_fails example_now initial_state (invoice_form ''c1'' ''15.00'' ''pending''))
     = [ConsoleLog (Inr \<lparr>customerId = ''c1'', amount = Fin 15, status = Pending\<rparr>),
        Sql (INSERT ''c1'' (Fin 1500) Pending ''2024-03-05''),
        ConsoleError ''Database Error: Failed to Create Invoice.'',
        RevalidatePath ''/dashboard/invoices'']
   \<and> last (fst (createInvoice db_fails example_now initial_state
                   (invoice_form ''c1'' ''15.00'' ''pending'')))
       = RevalidatePath ''/dashboard/invoices''
   \<and> snd (createInvoice db_fails example_now initial_state
              (invoice_form ''c1'' ''15.00'' ''pending''))
       = Redirected ''/dashboard/invoices''
   \<and> last (fst (updateInvoice db_fails ''inv-9'' initial_state
                   (invoice_form ''c1'' ''15.00'' ''pending'')))
       = RevalidatePath ''/dashboard/invoices''
   \<and> snd (updateInvoice db_fails ''inv-9'' initial_state
              (invoice_form ''c1'' ''15.00'' ''pending''))
       = Redirected ''/dashboard/invoices''"
proof -
  have ev: "fst (createInvoice db_fails example_now initial_state
                   (invoice_form ''c1'' ''15.00'' ''pending''))
     = [ConsoleLog (Inr \<lparr>customerId = ''c1'', amount = Fin 15, status = Pending\<rparr>),
        Sql (INSERT ''c1'' (Fin 1500) Pending ''2024-03-05''),
        ConsoleError ''Database Error: Failed to Create Invoice.'',
        RevalidatePath ''/dashboard/invoices'']"
    by (simp add: createInvoice_valid [OF validate_example] db_fails_def round64_1500
        date_of_example)
  from validated_create_update_invalidate_then_redirect [OF validate_example,
         of db_fails example_now initial_state "''inv-9''"] ev
  show ?thesis by blast
qed

section \<open>\<open>deleteInvoice\<close>\<close>

text \<open>
  Claim C5. \<open>deleteInvoice\<close> revalidates the path only when its statement succeeded:
  when the statement throws, the error is logged and no path is revalidated. The two
  other actions revalidate after a successful validation whatever the database did.
\<close>

theorem deleteInvoice_invalidates_only_on_success:
  "(db (DELETE invoice_id) \<longrightarrow>
      fst (deleteInvoice db invoice_id)
        = [Sql (DELETE invoice_id), RevalidatePath ''/dashboard/invoices''])
   \<and> (\<not> db (DELETE invoice_id) \<longrightarrow>
      fst (deleteInvoice db invoice_id)
        = [Sql (DELETE invoice_id), ConsoleError ''Database Error: Failed to Delete Invoice.'']
      \<and> (\<forall>p. RevalidatePath p \<notin> set (fst (deleteInvoice db invoice_id))))
   \<and> (\<forall>d. validate formData = Inr d \<longrightarrow>
         RevalidatePath ''/dashboard/invoices''
           \<in> set (fst (createInvoice db now prevState formData))
         \<and> RevalidatePath ''/dashboard/invoices''
           \<in> set (fst (updateInvoice db invoice_id prevState formData)))"
  by (auto simp: deleteInvoice_def Let_def createInvoice_valid updateInvoice_valid)

text \<open>
  Claim C5 on the invoice \<open>inv-9\<close>, with a database that accepts and one that rejects
  the statement.
\<close>

theorem deleteInvoice_invalidates_only_on_success_witness:
  "fst (deleteInvoice db_succeeds ''inv-9'')
     = [Sql (DELETE ''inv-9''), RevalidatePath ''/dashboard/invoices'']
   \<and> fst (deleteInvoice db_fails ''inv-9'')
     = [Sql (DELETE ''inv-9''), ConsoleError ''Database Error: Failed to Delete Invoice.'']
   \<and> RevalidatePath ''/dashboard/invoices'' \<notin> set (fst (deleteInvoice db_fails ''inv-9''))
   \<and> RevalidatePath ''/dashboard/invoices''
       \<in> set (fst (createInvoice db_fails example_now initial_state
                     (invoice_form ''c1'' ''15.00'' ''pending'')))
   \<and> RevalidatePath ''/dashboard/invoices''
       \<in> set (fst (updateInvoice db_fails ''inv-9'' initial_state
                     (invoice_form ''c1'' ''15.00'' ''pending'')))"
proof -
  have ok: "db_succeeds (DELETE ''inv-9'')" by (simp add: db_succeeds_def)
  have ko: "\<not> db_fails (DELETE ''inv-9'')" by (simp add: db_fails_def)
  from deleteInvoice_invalidates_only_on_success
         [of db_succeeds "''inv-9''" "invoice_form ''c1'' ''15.00'' ''pending''"
            example_now initial_state] ok
  have a: "fst (deleteInvoice db_succeeds ''inv-9'')
     = [Sql (DELETE ''inv-9''), RevalidatePath ''/dashboard/invoices'']" by blast
  from deleteInvoice_invalidates_only_on_success
         [of db_fails "''inv-9''" "invoice_form ''c1'' ''15.00'' ''pending''"
            example_now initial_state] ko validate_example
  have b: "fst (deleteInvoice db_fails ''inv-9'')
       = [Sql (DELETE ''inv-9''), ConsoleError ''Database Error: Failed to Delete Invoice.'']
     \<and> RevalidatePath ''/dashboard/invoices'' \<notin> set (fst (deleteInvoice db_fails ''inv-9''))
     \<and> RevalidatePath ''/dashboard/invoices''
         \<in> set (fst (createInvoice db_fails example_now initial_state
                       (invoice_form ''c1'' ''15.00'' ''pending'')))
     \<and> RevalidatePath ''/dashboard/invoices''
         \<in> set (fst (updateInvoice db_fails ''inv-9'' initial_state
                       (invoice_form ''c1'' ''15.00'' ''pending'')))" by blast
  from a b show ?thesis by blast
qed

text \<open>
  Claim C9. \<open>deleteInvoice\<close> never redirects: it returns to its caller, whether the
  statement succeeded or failed, while \<open>createInvoice\<close> and \<open>updateInvoice\<close> end in the
  redirect once the form has passed validation.
\<close>

theorem deleteInvoice_never_redirects:
  "snd (deleteInvoice db invoice_id) = ReturnedVoid
   \<and> (\<forall>p. snd (deleteInvoice db invoice_id) \<noteq> Redirected p)
   \<and> (\<forall>d. validate formData = Inr d \<longrightarrow>
         snd (createInvoice db now prevState formData) = Redirected ''/dashboard/invoices''
         \<and> snd (updateInvoice db invoice_id prevState formData)
             = Redirected ''/dashboard/invoices'')"
  by (auto simp: deleteInvoice_def Let_def createInvoice_valid updateInvoice_valid)

text \<open>
  Claim C9 on the invoice \<open>inv-9\<close> and the example form.
\<close>

theorem deleteInvoice_never_redirects_witness:
  "snd (deleteInvoice db_succeeds ''inv-9'') = ReturnedVoid
   \<and> snd (deleteInvoice db_fails ''inv-9'') = ReturnedVoid
   \<and> snd (createInvoice db_succeeds example_now initial_state
             (invoice_form ''c1'' ''15.00'' ''pending'')) = Redirected ''/dashboard/invoices''
   \<and> snd (updateInvoice db_succeeds ''inv-9'' initial_state
             (invoice_form ''c1'' ''15.00'' ''pending'')) = Redirected ''/dashboard/invoices''"
  using deleteInvoice_never_redirects
          [of db_succeeds "''inv-9''" "invoice_form ''c1'' ''15.00'' ''pending''"
             example_now initial_state]
        deleteInvoice_never_redirects
          [of db_fails "''inv-9''" "invoice_form ''c1'' ''15.00'' ''pending''"
             example_now initial_state]
        validate_example
  by blast

section \<open>The throwing \<open>createInvoice\<close>\<close>

text \<open>
  Claim C6. When the form fails the schema of the second file, its \<open>createInvoice\<close>
  throws the validation exception with the issues found, before any effect, and never
  returns an error result.
\<close>

theorem createInvoice_strict_throws_validation_exception:
  assumes "validate_strict formData = Inl issues"
  shows "createInvoice_strict db now formData = ([], Thrown (ZodError issues))
       \<and> issues \<noteq> []
       \<and> (\<forall>st. snd (createInvoice_strict db now formData) \<noteq> Returned st)"
  using assms validate_strict_issues_nonempty [OF assms]
  by (simp add: createInvoice_strict_invalid)

text \<open>
  Claim C6 on a form without status.
\<close>

theorem createInvoice_strict_throws_validation_exception_witness:
  "createInvoice_strict db_succeeds example_now
       [(''customerId'', StrValue ''c1''), (''amount'', StrValue ''15.00'')]
     = ([], Thrown (ZodError [Issue ''status'' invalid_type
              (''Expected '' @ quoted ''pending'' @ '' | '' @ quoted ''paid''
                 @ '', received null'')]))"
  using createInvoice_strict_throws_validation_exception [OF validate_strict_missing_status,
          of db_succeeds example_now]
  by simp

section \<open>What the reporting validation answers\<close>

text \<open>
  Claim C3. When the amount field is no number (\<open>Number\<close> gives NaN) or a number that
  is at most 0, \<open>createInvoice\<close> and \<open>updateInvoice\<close> return, without throwing, a result
  whose errors list a message for the amount and whose message is \<open>Missing Fields. Failed
  to Create Invoice.\<close>, respectively \<open>Missing Fields. Failed to Update Invoice.\<close>, and
  they send no statement.
\<close>

theorem invalid_amount_reported_without_statement:
  assumes "Number (formData_get formData ''amount'') = NaN
         \<or> num_le (Number (formData_get formData ''amount'')) (Fin 0)"
  shows "\<exists>issues.
           createInvoice db now prevState formData
             = ([ConsoleLog (Inl issues)],
                Returned \<lparr>errors = Some (flatten_fieldErrors issues),
                          message = Some ''Missing Fields. Failed to Create Invoice.''\<rparr>)
         \<and> updateInvoice db invoice_id prevState formData
             = ([],
                Returned \<lparr>errors = Some (flatten_fieldErrors issues),
                          message = Some ''Missing Fields. Failed to Update Invoice.''\<rparr>)
         \<and> amount_errors (flatten_fieldErrors issues)
             = Some [if Number (formData_get formData ''amount'') = NaN
                     then ''Expected number, received nan''
                     else ''Please enter an amount greater than $0.'']
         \<and> statements (fst (createInvoice db now prevState formData)) = []
         \<and> statements (fst (updateInvoice db invoice_id prevState formData)) = []"
proof -
  from amount_errors_invalid [OF assms]
  obtain issues where v: "validate formData = Inl issues"
    and m: "messages_of ''amount'' issues
              = Some [if Number (formData_get formData ''amount'') = NaN
                      then ''Expected number, received nan''
                      else ''Please enter an amount greater than $0.'']"
    unfolding validate_def by blast
  show ?thesis
    using m
    by (intro exI [of _ issues])
       (simp add: createInvoice_invalid [OF v] updateInvoice_invalid [OF v]
          flatten_fieldErrors_def statements_def)
qed

text \<open>
  Claim C3 on the amounts \<open>abc\<close> and \<open>0\<close>.
\<close>

theorem invalid_amount_reported_without_statement_witness:
  "(\<exists>issues.
      createInvoice db_succeeds example_now initial_state (invoice_form ''c1'' ''abc'' ''pending'')
        = ([ConsoleLog (Inl issues)],
           Returned \<lparr>errors = Some (flatten_fieldErrors issues),
                     message = Some ''Missing Fields. Failed to Create Invoice.''\<rparr>)
      \<and> amount_errors (flatten_fieldErrors issues) = Some [''Expected number, received nan''])
   \<and> (\<exists>issues.
      updateInvoice db_succeeds ''inv-9'' initial_state (invoice_form ''c1'' ''0'' ''pending'')
        = ([],
           Returned \<lparr>errors = Some (flatten_fieldErrors issues),
                     message = Some ''Missing Fields. Failed to Update Invoice.''\<rparr>)
      \<and> amount_errors (flatten_fieldErrors issues)
          = Some [''Please enter an amount greater than $0.''])"
proof -
  have a: "Number (formData_get (invoice_form ''c1'' ''abc'' ''pending'') ''amount'') = NaN"
    by (simp add: formData_get_def invoice_form_def Number_abc)
  have b: "Number (formData_get (invoice_form ''c1'' ''0'' ''pending'') ''amount'') = Fin 0"
    by (simp add: formData_get_def invoice_form_def Number_0)
  from invalid_amount_reported_without_statement
         [of "invoice_form ''c1'' ''abc'' ''pending''" db_succeeds example_now initial_state
            "''inv-9''"] a
  have 1: "\<exists>issues.
      createInvoice db_succeeds example_now initial_state (invoice_form ''c1'' ''abc'' ''pending'')
        = ([ConsoleLog (Inl issues)],
           Returned \<lparr>errors = Some (flatten_fieldErrors issues),
                     message = Some ''Missing Fields. Failed to Create Invoice.''\<rparr>)
      \<and> amount_errors (flatten_fieldErrors issues) = Some [''Expected number, received nan'']"
    by auto
  from invalid_amount_reported_without_statement
         [of "invoice_form ''c1'' ''0'' ''pending''" db_succeeds example_now initial_state
            "''inv-9''"] b
  have 2: "\<exists>issues.
      updateInvoice db_succeeds ''inv-9'' initial_state (invoice_form ''c1'' ''0'' ''pending'')
        = ([],
           Returned \<lparr>errors = Some (flatten_fieldErrors issues),
                     message = Some ''Missing Fields. Failed to Update Invoice.''\<rparr>)
      \<and> amount_errors (flatten_fieldErrors issues)
          = Some [''Please enter an amount greater than $0.'']"
    by auto
  from 1 2 show ?thesis by blast
qed

text \<open>
  Claim C8, as amended. When the status field is absent or is not a string, the status
  error is \<open>Please select an invoice status.\<close>; when it is a string other than
  \<open>pending\<close> and \<open>paid\<close>, the form is rejected with a status error too, but the message
  is the default one of \<open>z.enum\<close>, since the schema sets \<open>invalid_type_error\<close> only.
\<close>

theorem status_message_only_for_missing_status:
  "((\<forall>x. formData_get formData ''status'' \<noteq> Some (StrValue x)) \<longrightarrow>
      (\<exists>issues. validate formData = Inl issues
         \<and> status_errors (flatten_fieldErrors issues)
             = Some [''Please select an invoice status.'']))
   \<and> (\<forall>x. formData_get formData ''status'' = Some (StrValue x)
            \<and> x \<noteq> ''pending'' \<and> x \<noteq> ''paid'' \<longrightarrow>
      (\<exists>issues. validate formData = Inl issues
         \<and> status_errors (flatten_fieldErrors issues)
             = Some [''Invalid enum value. Expected '' @ quoted ''pending'' @ '' | ''
                       @ quoted ''paid'' @ '', received '' @ quoted x]))"
proof -
  let ?s = "formData_get formData ''status''"
  have a: "(\<forall>x. ?s \<noteq> Some (StrValue x)) \<longrightarrow>
      (\<exists>issues. validate formData = Inl issues
         \<and> status_errors (flatten_fieldErrors issues)
             = Some [''Please select an invoice status.''])"
  proof
    assume n: "\<forall>x. ?s \<noteq> Some (StrValue x)"
    then have "?s \<noteq> Some (StrValue ''pending'')" and "?s \<noteq> Some (StrValue ''paid'')"
      by simp_all
    from status_errors_invalid [OF this, of "formData_get formData ''customerId''"
        "formData_get formData ''amount''"]
    obtain issues where v: "validate formData = Inl issues"
      and m: "messages_of ''status'' issues
        = Some [case ?s of
                  Some (StrValue x) \<Rightarrow>
                    ''Invalid enum value. Expected '' @ quoted ''pending'' @ '' | ''
                      @ quoted ''paid'' @ '', received '' @ quoted x
                | _ \<Rightarrow> ''Please select an invoice status.'']"
      unfolding validate_def by blast
    have "(case ?s of
             Some (StrValue x) \<Rightarrow>
               ''Invalid enum value. Expected '' @ quoted ''pending'' @ '' | ''
                 @ quoted ''paid'' @ '', received '' @ quoted x
           | _ \<Rightarrow> ''Please select an invoice status.'') = ''Please select an invoice status.''"
      using n by (simp split: option.splits formValue.splits)
    with m have "status_errors (flatten_fieldErrors issues)
                   = Some [''Please select an invoice status.'']"
      by (simp add: flatten_fieldErrors_def)
    with v show "\<exists>issues. validate formData = Inl issues
         \<and> status_errors (flatten_fieldErrors issues)
             = Some [''Please select an invoice status.'']"
      by blast
  qed
  have b: "\<forall>x. ?s = Some (StrValue x) \<and> x \<noteq> ''pending'' \<and> x \<noteq> ''paid'' \<longrightarrow>
      (\<exists>issues. validate formData = Inl issues
         \<and> status_errors (flatten_fieldErrors issues)
             = Some [''Invalid enum value. Expected '' @ quoted ''pending'' @ '' | ''
                       @ quoted ''paid'' @ '', received '' @ quoted x])"
  proof (intro allI impI)
    fix x
    assume h: "?s = Some (StrValue x) \<and> x \<noteq> ''pending'' \<and> x \<noteq> ''paid''"
    then have "?s \<noteq> Some (StrValue ''pending'')" and "?s \<noteq> Some (StrValue ''paid'')"
      by simp_all
    from status_errors_invalid [OF this, of "formData_get formData ''customerId''"
        "formData_get formData ''amount''"]
    obtain issues where v: "validate formData = Inl issues"
      and m: "messages_of ''status'' issues
        = Some [case ?s of
                  Some (StrValue x) \<Rightarrow>
                    ''Invalid enum value. Expected '' @ quoted ''pending'' @ '' | ''
                      @ quoted ''paid'' @ '', received '' @ quoted x
                | _ \<Rightarrow> ''Please select an invoice status.'']"
      unfolding validate_def by blast
    from m h have "status_errors (flatten_fieldErrors issues)
             = Some [''Invalid enum value. Expected '' @ quoted ''pending'' @ '' | ''
                       @ quoted ''paid'' @ '', received '' @ quoted x]"
      by (simp add: flatten_fieldErrors_def)
    with v show "\<exists>issues. validate formData = Inl issues
         \<and> status_errors (flatten_fieldErrors issues)
             = Some [''Invalid enum value. Expected '' @ quoted ''pending'' @ '' | ''
                       @ quoted ''paid'' @ '', received '' @ quoted x]"
      by blast
  qed
  from a b show ?thesis by blast
qed

text \<open>
  Claim C8 as stated fails: for the status \<open>draft\<close> the message is not
  \<open>Please select an invoice status.\<close>
\<close>

theorem status_message_differs_for_unknown_status:
  "validate (invoice_form ''c1'' ''15.00'' ''draft'')
     = Inl [Issue ''status'' invalid_enum_value
              (''Invalid enum value. Expected '' @ quoted ''pending'' @ '' | ''
                 @ quoted ''paid'' @ '', received '' @ quoted ''draft'')]
   \<and> status_errors (flatten_fieldErrors
        [Issue ''status'' invalid_enum_value
              (''Invalid enum value. Expected '' @ quoted ''pending'' @ '' | ''
                 @ quoted ''paid'' @ '', received '' @ quoted ''draft'')])
     \<noteq> Some [''Please select an invoice status.'']"
  by (simp add: schema_defs Number_15 flatten_fieldErrors_def messages_of_def quoted_def)

text \<open>
  Claim C8, as amended, on a form without status and on a form with the status
  \<open>draft\<close>.
\<close>

theorem status_message_only_for_missing_status_witness:
  "(\<exists>issues. validate [(''customerId'', StrValue ''c1''), (''amount'', StrValue ''15.00'')]
                 = Inl issues
       \<and> status_errors (flatten_fieldErrors issues) = Some [''Please select an invoice status.''])
   \<and> (\<exists>issues. validate (invoice_form ''c1'' ''15.00'' ''draft'') = Inl issues
       \<and> status_errors (flatten_fieldErrors issues)
           = Some [''Invalid enum value. Expected '' @ quoted ''pending'' @ '' | ''
                     @ quoted ''paid'' @ '', received '' @ quoted ''draft''])"
proof -
  have a: "\<forall>x. formData_get [(''customerId'', StrValue ''c1''), (''amount'', StrValue ''15.00'')]
                 ''status'' \<noteq> Some (StrValue x)"
    by (simp add: formData_get_def)
  have b: "formData_get (invoice_form ''c1'' ''15.00'' ''draft'') ''status''
             = Some (StrValue ''draft'') \<and> ''draft'' \<noteq> ''pending'' \<and> ''draft'' \<noteq> ''paid''"
    by (simp add: formData_get_def invoice_form_def)
  from status_message_only_for_missing_status
         [of "[(''customerId'', StrValue ''c1''), (''amount'', StrValue ''15.00'')]"] a
  have 1: "\<exists>issues. validate [(''customerId'', StrValue ''c1''), (''amount'', StrValue ''15.00'')]
                 = Inl issues
       \<and> status_errors (flatten_fieldErrors issues) = Some [''Please select an invoice status.'']"
    by blast
  from status_message_only_for_missing_status [of "invoice_form ''c1'' ''15.00'' ''draft''"] b
  have 2: "\<exists>issues. validate (invoice_form ''c1'' ''15.00'' ''draft'') = Inl issues
       \<and> status_errors (flatten_fieldErrors issues)
           = Some [''Invalid enum value. Expected '' @ quoted ''pending'' @ '' | ''
                     @ quoted ''paid'' @ '', received '' @ quoted ''draft'']"
    by blast
  from 1 2 show ?thesis by blast
qed

section \<open>\<open>updateInvoice\<close> and the date column\<close>

text \<open>
  Claim C10. Whatever the form and the database, the rows after \<open>updateInvoice\<close> have
  the dates (and the ids) they had before, and the rows of other ids are untouched: the
  only statement the action sends is an \<open>UPDATE\<close> of \<open>customer_id\<close>, \<open>amount\<close> and
  \<open>status\<close> for the given id, and it computes no date.
\<close>

theorem updateInvoice_leaves_date_unchanged:
  "map row_date (run_events db new_id (fst (updateInvoice db invoice_id preState formData)) rows)
     = map row_date rows
   \<and> map row_id (run_events db new_id (fst (updateInvoice db invoice_id preState formData)) rows)
     = map row_id rows
   \<and> filter (\<lambda>r. row_id r \<noteq> invoice_id)
        (run_events db new_id (fst (updateInvoice db invoice_id preState formData)) rows)
     = filter (\<lambda>r. row_id r \<noteq> invoice_id) rows
   \<and> (\<forall>stmt \<in> set (statements (fst (updateInvoice db invoice_id preState formData))).
         \<exists>c a s. stmt = UPDATE c a s invoice_id)"
proof (cases "validate formData")
  case (Inl issues)
  then show ?thesis
    by (simp add: updateInvoice_invalid run_events_def statements_def)
next
  case (Inr d)
  then show ?thesis
    by (simp add: updateInvoice_valid run_events_def run_event_def statements_def
        exec_UPDATE_frame exec_UPDATE_other_rows del: exec.simps)
qed

text \<open>
  Claim C10 on a table of two rows: the row \<open>inv-9\<close> takes the new customer, amount
  and status and keeps its date.
\<close>

theorem updateInvoice_leaves_date_unchanged_witness:
  "run_events db_succeeds ''inv-11''
       (fst (updateInvoice db_succeeds ''inv-9'' initial_state
               (invoice_form ''c1'' ''15.00'' ''pending''))) example_rows
     = [\<lparr>row_id = ''inv-9'', row_customer_id = ''c1'', row_amount = Fin 1500,
         row_status = Pending, row_date = ''2023-12-31''\<rparr>,
        \<lparr>row_id = ''inv-10'', row_customer_id = ''c2'', row_amount = Fin 100,
         row_status = Paid, row_date = ''2024-01-15''\<rparr>]
   \<and> map row_date (run_events db_succeeds ''inv-11''
       (fst (updateInvoice db_succeeds ''inv-9'' initial_state
               (invoice_form ''c1'' ''15.00'' ''pending''))) example_rows)
     = map row_date example_rows
   \<and> statements (fst (updateInvoice db_succeeds ''inv-9'' initial_state
               (invoice_form ''c1'' ''15.00'' ''pending'')))
     = [UPDATE ''c1'' (Fin 1500) Pending ''inv-9'']"
proof -
  have ev: "fst (updateInvoice db_succeeds ''inv-9'' initial_state
               (invoice_form ''c1'' ''15.00'' ''pending''))
      = [Sql (UPDATE ''c1'' (Fin 1500) Pending ''inv-9''),
         RevalidatePath ''/dashboard/invoices'']"
    by (simp add: updateInvoice_valid [OF validate_example] db_succeeds_def round64_1500)
  have run: "run_events db_succeeds ''inv-11''
       [Sql (UPDATE ''c1'' (Fin 1500) Pending ''inv-9''),
        RevalidatePath ''/dashboard/invoices''] example_rows
     = [\<lparr>row_id = ''inv-9'', row_customer_id = ''c1'', row_amount = Fin 1500,
         row_status = Pending, row_date = ''2023-12-31''\<rparr>,
        \<lparr>row_id = ''inv-10'', row_customer_id = ''c2'', row_amount = Fin 100,
         row_status = Paid, row_date = ''2024-01-15''\<rparr>]"
    by (simp add: run_events_def run_event_def db_succeeds_def example_rows_def)
  have st: "statements [Sql (UPDATE ''c1'' (Fin 1500) Pending ''inv-9''),
              RevalidatePath ''/dashboard/invoices'']
      = [UPDATE ''c1'' (Fin 1500) Pending ''inv-9'']"
    by (simp add: statements_def)
  from updateInvoice_leaves_date_unchanged
         [of db_succeeds "''inv-11''" "''inv-9''" initial_state
            "invoice_form ''c1'' ''15.00'' ''pending''" example_rows]
  have "map row_date (run_events db_succeeds ''inv-11''
       (fst (updateInvoice db_succeeds ''inv-9'' initial_state
               (invoice_form ''c1'' ''15.00'' ''pending''))) example_rows)
     = map row_date example_rows" by blast
  with ev run st show ?thesis by simp
qed

section \<open>The amount in cents\<close>








text \<open>When the exact product is a whole number below \<open>2 ^ 53\<close>, the product is exact.\<close>

lemma amountInCents_exact:
  assumes "amount d = Fin a" and "0 < a" and "a * 100 = of_int n" and "n < 2 ^ 53"
  shows "num_times (amount d) (Fin 100) = Fin (of_int n)"
proof -
  have "(0::rat) < of_int n" using assms(2,3) by (metis mult_pos_pos zero_less_numeral)
  then have n0: "0 < n" by simp
  then have "0 < nat n" by simp
  moreover have "nat n < 2 ^ Suc frac_bits"
    using assms(4) n0 by (simp add: frac_bits_def nat_less_iff)
  ultimately have "round64 (of_nat (nat n) / 2 ^ 0) = Fin (of_nat (nat n) / 2 ^ 0)"
    by (rule round64_dyadic) simp
  moreover have "(of_nat (nat n) :: rat) = of_int n" using n0 by simp
  ultimately have "round64 (of_int n) = Fin (of_int n)" by simp
  with assms(1,3) show ?thesis by simp
qed

lemma spec_amountCents_whole:
  assumes "a * 100 = of_int n"
  shows "spec_amountCents a = Fin (of_int n)"
proof -
  have "\<lfloor>(of_int n :: rat) + 1 / 2\<rfloor> = n"
    by (rule floor_unique) simp_all
  with assms show ?thesis by (simp add: spec_amountCents_def round_half_up_def)
qed

subsection \<open>Some amounts\<close>

lemma round64_19999: "round64 (19999 / 1000) = Fin (5629218059236409 / 281474976710656)"
proof -
  have "round64 (19999 / 1000) = Fin (of_int (rhe (19999 / 1000 * 2 ^ 48)) / 2 ^ 48)"
    by (rule round64_normal) (simp_all add: denorm_exp_def frac_bits_def)
  also have "rhe (19999 / 1000 * 2 ^ 48) = 5629218059236409"
    by (simp add: rhe_def Let_def floor_rat_numeral)
  finally show ?thesis by simp
qed

lemma round64_19999_cents:
  "round64 (5629218059236409 / 281474976710656 * 100)
     = Fin (8795653217556889 / 4398046511104)"
proof -
  have "round64 (5629218059236409 / 281474976710656 * 100)
     = Fin (of_int (rhe (5629218059236409 / 281474976710656 * 100 * 2 ^ 42)) / 2 ^ 42)"
    by (rule round64_normal) (simp_all add: denorm_exp_def frac_bits_def)
  also have "rhe (5629218059236409 / 281474976710656 * 100 * 2 ^ 42) = 8795653217556889"
    by (simp add: rhe_def Let_def floor_rat_numeral)
  finally show ?thesis by simp
qed

lemma cents_19999:
  "num_times (Fin (5629218059236409 / 281474976710656)) (Fin 100)
     = Fin (8795653217556889 / 4398046511104)"
  by (simp only: num_times.simps round64_19999_cents)

lemma round64_0001: "round64 (1 / 1000) = Fin (1152921504606847 / 1152921504606846976)"
proof -
  have "round64 (1 / 1000) = Fin (of_int (rhe (1 / 1000 * 2 ^ 62)) / 2 ^ 62)"
    by (rule round64_normal) (simp_all add: denorm_exp_def frac_bits_def)
  also have "rhe (1 / 1000 * 2 ^ 62) = 4611686018427388"
    by (simp add: rhe_def Let_def floor_rat_numeral)
  finally show ?thesis by simp
qed

lemma round64_0001_cents:
  "round64 (1152921504606847 / 1152921504606846976 * 100)
     = Fin (3602879701896397 / 36028797018963968)"
proof -
  have "round64 (1152921504606847 / 1152921504606846976 * 100)
     = Fin (of_int (rhe (1152921504606847 / 1152921504606846976 * 100 * 2 ^ 56)) / 2 ^ 56)"
    by (rule round64_normal) (simp_all add: denorm_exp_def frac_bits_def)
  also have "rhe (1152921504606847 / 1152921504606846976 * 100 * 2 ^ 56) = 7205759403792794"
    by (simp add: rhe_def Let_def floor_rat_numeral)
  finally show ?thesis by simp
qed

lemma cents_0001:
  "num_times (Fin (1152921504606847 / 1152921504606846976)) (Fin 100)
     = Fin (3602879701896397 / 36028797018963968)"
  by (simp only: num_times.simps round64_0001_cents)

lemma round64_1250_hundredths: "round64 (25 / 2) = Fin (25 / 2)"
  using round64_dyadic [of 25 1] by (simp add: frac_bits_def denorm_exp_def)

lemma validate_19999:
  "validate (invoice_form ''c1'' ''19.999'' ''pending'')
     = Inr \<lparr>customerId = ''c1'', amount = Fin (5629218059236409 / 281474976710656),
            status = Pending\<rparr>"
  by (simp add: schema_defs number_parse_defs round64_19999)

lemma validate_0001:
  "validate (invoice_form ''c1'' ''0.001'' ''pending'')
     = Inr \<lparr>customerId = ''c1'', amount = Fin (1152921504606847 / 1152921504606846976),
            status = Pending\<rparr>"
  by (simp add: schema_defs number_parse_defs round64_0001)

lemma validate_1250:
  "validate (invoice_form ''c1'' ''12.50'' ''pending'')
     = Inr \<lparr>customerId = ''c1'', amount = Fin (25 / 2), status = Pending\<rparr>"
  by (simp add: schema_defs number_parse_defs round64_1250_hundredths)

lemma statements_createInvoice:
  assumes "validate formData = Inr d"
  shows "statements (fst (createInvoice db now prevState formData))
     = [INSERT (customerId d) (num_times (amount d) (Fin 100)) (status d) (date_of now)]"
  by (simp add: createInvoice_valid [OF assms] statements_def)

lemma statements_updateInvoice:
  assumes "validate formData = Inr d"
  shows "statements (fst (updateInvoice db invoice_id prevState formData))
     = [UPDATE (customerId d) (num_times (amount d) (Fin 100)) (status d) invoice_id]"
  by (simp add: updateInvoice_valid [OF assms] statements_def)

text \<open>
  The product drifts even for an amount with two decimals: \<open>1.1\<close> gives
  \<open>110.00000000000001\<close>.
\<close>

lemma round64_11: "round64 (11 / 10) = Fin (2476979795053773 / 2251799813685248)"
proof -
  have "round64 (11 / 10) = Fin (of_int (rhe (11 / 10 * 2 ^ 52)) / 2 ^ 52)"
    by (rule round64_normal) (simp_all add: denorm_exp_def frac_bits_def)
  also have "rhe (11 / 10 * 2 ^ 52) = 4953959590107546"
    by (simp add: rhe_def Let_def floor_rat_numeral)
  finally show ?thesis by simp
qed

lemma round64_11_cents:
  "round64 (2476979795053773 / 2251799813685248 * 100)
     = Fin (7740561859543041 / 70368744177664)"
proof -
  have "round64 (2476979795053773 / 2251799813685248 * 100)
     = Fin (of_int (rhe (2476979795053773 / 2251799813685248 * 100 * 2 ^ 46)) / 2 ^ 46)"
    by (rule round64_normal) (simp_all add: denorm_exp_def frac_bits_def)
  also have "rhe (2476979795053773 / 2251799813685248 * 100 * 2 ^ 46) = 7740561859543041"
    by (simp add: rhe_def Let_def floor_rat_numeral)
  finally show ?thesis by simp
qed

lemma cents_11:
  "Number (Some (StrValue ''1.1'')) = Fin (2476979795053773 / 2251799813685248)
   \<and> num_times (Fin (2476979795053773 / 2251799813685248)) (Fin 100)
       = Fin (7740561859543041 / 70368744177664)"
proof -
  have a: "Number (Some (StrValue ''1.1'')) = Fin (2476979795053773 / 2251799813685248)"
    by (simp add: number_parse_defs round64_11)
  have b: "num_times (Fin (2476979795053773 / 2251799813685248)) (Fin 100)
       = Fin (7740561859543041 / 70368744177664)"
    by (simp only: num_times.simps round64_11_cents)
  from a b show ?thesis by blast
qed

section \<open>The amount the statements carry\<close>

text \<open>
  Claim C1. The specification asks for \<open>round(amount * 100)\<close>, exact and free of
  floating-point drift, and the comment on the line says that the conversion to cents is
  there against floating-point errors. The line is the bare product \<open>amount * 100\<close>: for
  the amount \<open>1.1\<close> both actions send \<open>110.00000000000001\<close>, which is no integer, where
  \<open>round(amount * 100)\<close> is 110.
\<close>

theorem amountInCents_floating_point_error:
  "validate (invoice_form ''c1'' ''1.1'' ''pending'')
     = Inr \<lparr>customerId = ''c1'', amount = Fin (2476979795053773 / 2251799813685248),
            status = Pending\<rparr>
   \<and> statements (fst (createInvoice db_succeeds example_now initial_state
                        (invoice_form ''c1'' ''1.1'' ''pending'')))
     = [INSERT ''c1'' (Fin (7740561859543041 / 70368744177664)) Pending ''2024-03-05'']
   \<and> statements (fst (updateInvoice db_succeeds ''inv-9'' initial_state
                        (invoice_form ''c1'' ''1.1'' ''pending'')))
     = [UPDATE ''c1'' (Fin (7740561859543041 / 70368744177664)) Pending ''inv-9'']
   \<and> spec_amountCents (2476979795053773 / 2251799813685248) = Fin 110
   \<and> Fin (7740561859543041 / 70368744177664)
       \<noteq> spec_amountCents (2476979795053773 / 2251799813685248)
   \<and> \<not> is_integer (Fin (7740561859543041 / 70368744177664))"
proof -
  have v: "validate (invoice_form ''c1'' ''1.1'' ''pending'')
     = Inr \<lparr>customerId = ''c1'', amount = Fin (2476979795053773 / 2251799813685248),
            status = Pending\<rparr>"
    using cents_11 by (simp add: schema_defs)
  have c: "num_times (Fin (2476979795053773 / 2251799813685248)) (Fin 100)
       = Fin (7740561859543041 / 70368744177664)"
    using cents_11 by blast
  have s: "spec_amountCents (2476979795053773 / 2251799813685248) = Fin 110"
    by (simp add: spec_amountCents_def round_half_up_def floor_rat_numeral)
  show ?thesis
    by (simp add: v statements_createInvoice [OF v] statements_updateInvoice [OF v] c
        date_of_example s is_integer_def floor_rat_numeral del: num_times.simps)
qed

text \<open>
  The example of the specification: for the amount \<open>19.999\<close> both actions send
  \<open>1999.8999999999999\<close>, where \<open>round(amount * 100)\<close> is 2000.
\<close>

lemma amountInCents_not_rounded:
  "validate (invoice_form ''c1'' ''19.999'' ''pending'')
     = Inr \<lparr>customerId = ''c1'', amount = Fin (5629218059236409 / 281474976710656),
            status = Pending\<rparr>
   \<and> statements (fst (createInvoice db_succeeds example_now initial_state
                        (invoice_form ''c1'' ''19.999'' ''pending'')))
     = [INSERT ''c1'' (Fin (8795653217556889 / 4398046511104)) Pending ''2024-03-05'']
   \<and> statements (fst (updateInvoice db_succeeds ''inv-9'' initial_state
                        (invoice_form ''c1'' ''19.999'' ''pending'')))
     = [UPDATE ''c1'' (Fin (8795653217556889 / 4398046511104)) Pending ''inv-9'']
   \<and> spec_amountCents (5629218059236409 / 281474976710656) = Fin 2000
   \<and> Fin (8795653217556889 / 4398046511104)
       \<noteq> spec_amountCents (5629218059236409 / 281474976710656)"
proof -
  have s: "spec_amountCents (5629218059236409 / 281474976710656) = Fin 2000"
    by (simp add: spec_amountCents_def round_half_up_def floor_rat_numeral)
  show ?thesis
    by (simp add: validate_19999 statements_createInvoice [OF validate_19999]
        statements_updateInvoice [OF validate_19999] cents_19999 date_of_example s
        del: num_times.simps)
qed

text \<open>
  On a store whose amount column holds integers the form with the amount \<open>1.1\<close> is
  validated, its \<open>INSERT\<close> fails on the amount \<open>110.00000000000001\<close>, the failure is
  only logged, and no row is written.
\<close>

lemma drifted_amount_writes_no_row:
  "fst (createInvoice (integer_cents_store db_succeeds) example_now initial_state
          (invoice_form ''c1'' ''1.1'' ''pending''))
     = [ConsoleLog (Inr \<lparr>customerId = ''c1'',
                           amount = Fin (2476979795053773 / 2251799813685248),
                           status = Pending\<rparr>),
        Sql (INSERT ''c1'' (Fin (7740561859543041 / 70368744177664)) Pending ''2024-03-05''),
        ConsoleError ''Database Error: Failed to Create Invoice.'',
        RevalidatePath ''/dashboard/invoices'']
   \<and> run_events (integer_cents_store db_succeeds) ''inv-11''
         (fst (createInvoice (integer_cents_store db_succeeds) example_now initial_state
                 (invoice_form ''c1'' ''1.1'' ''pending''))) example_rows
       = example_rows"
proof -
  have v: "validate (invoice_form ''c1'' ''1.1'' ''pending'')
     = Inr \<lparr>customerId = ''c1'', amount = Fin (2476979795053773 / 2251799813685248),
            status = Pending\<rparr>"
    using cents_11 by (simp add: schema_defs)
  have c: "num_times (Fin (2476979795053773 / 2251799813685248)) (Fin 100)
       = Fin (7740561859543041 / 70368744177664)"
    using cents_11 by blast
  have rej: "\<not> integer_cents_store db_succeeds
               (INSERT ''c1'' (Fin (7740561859543041 / 70368744177664)) Pending ''2024-03-05'')"
    by (simp add: integer_cents_store_def is_integer_def floor_rat_numeral)
  show ?thesis
    using rej
    by (simp add: createInvoice_valid [OF v] c date_of_example run_events_def run_event_def
        del: num_times.simps)
qed

section \<open>The rows the actions write\<close>





end
